theory Spec2Isabelle
  imports Main
begin

section \<open>The JavaScript fragment the connectors use\<close>

text \<open>
  The storage connectors of \<open>src/server/db\<close> handle game states, which are plain
  JavaScript objects, through references: the cache keeps the very object the caller
  passed to \<open>set\<close>, and \<open>set\<close> deletes a property of that object. Objects
  therefore live in a heap, a list of property lists addressed by position, and a value
  is \<open>undefined\<close>, \<open>null\<close>, a number, a reference to a heap object, or a row of
  the SQL table (a wrapper with the two columns \<open>id\<close> and \<open>ctx\<close> of
  \<open>GameModel\<close>, as a query of the table delivers it; rows are never mutated, so
  they are kept as values).
  Numbers are the integers: \<open>_stateID\<close> is a sequence number. Strings, booleans
  and fractions do not occur as property values of the model.
\<close>

type_synonym addr = nat

datatype jsval =
    JUndefined
  | JNull
  | JNum int
  | JRef addr
  | JRow string jsval

type_synonym props = "(string \<times> jsval) list"

type_synonym heap = "props list"

datatype error = TypeError | StoreError | ConnectionError

text \<open>Allocation of a new object: the heap grows at its end, no address is reused.\<close>

definition alloc :: "heap \<Rightarrow> props \<Rightarrow> jsval \<times> heap" where
  "alloc h ps = (JRef (length h), h @ [ps])"

text \<open>The properties of the object at an address (none for an address never allocated).\<close>

definition props_of :: "heap \<Rightarrow> addr \<Rightarrow> props" where
  "props_of h a = (if a < length h then h ! a else [])"

text \<open>Reading an own property of a plain object: \<open>undefined\<close> when it is absent.\<close>

definition lookup_prop :: "props \<Rightarrow> string \<Rightarrow> jsval" where
  "lookup_prop ps p = (case map_of ps p of None \<Rightarrow> JUndefined | Some v \<Rightarrow> v)"

text \<open>
  \<open>v._stateID\<close>: a TypeError on \<open>undefined\<close> and \<open>null\<close>, \<open>undefined\<close> on a
  number and on a table row (which has the columns \<open>id\<close> and \<open>ctx\<close> only).
\<close>

fun read_stateID :: "heap \<Rightarrow> jsval \<Rightarrow> error + jsval" where
  "read_stateID h JUndefined = Inl TypeError"
| "read_stateID h JNull = Inl TypeError"
| "read_stateID h (JNum n) = Inr JUndefined"
| "read_stateID h (JRef a) = Inr (lookup_prop (props_of h a) ''_stateID'')"
| "read_stateID h (JRow i c) = Inr JUndefined"

text \<open>\<open>v.ctx\<close>.\<close>

fun read_ctx :: "heap \<Rightarrow> jsval \<Rightarrow> error + jsval" where
  "read_ctx h JUndefined = Inl TypeError"
| "read_ctx h JNull = Inl TypeError"
| "read_ctx h (JNum n) = Inr JUndefined"
| "read_ctx h (JRef a) = Inr (lookup_prop (props_of h a) ''ctx'')"
| "read_ctx h (JRow i c) = Inr c"

text \<open>\<open>state._stateID\<close> for the object at an address.\<close>

definition stateID_at :: "heap \<Rightarrow> addr \<Rightarrow> jsval" where
  "stateID_at h a = lookup_prop (props_of h a) ''_stateID''"

text \<open>\<open>delete state._id\<close>: the object at the address loses the property, in place.\<close>

definition delete_id :: "heap \<Rightarrow> addr \<Rightarrow> heap" where
  "delete_id h a =
     (if a < length h then h[a := filter (\<lambda>kv. fst kv \<noteq> ''_id'') (h ! a)] else h)"

text \<open>
  \<open>doc._id = v\<close>, as a driver does it to a document that has no \<open>_id\<close>: the
  object at the address gets the property, in place.
\<close>

definition write_id :: "heap \<Rightarrow> addr \<Rightarrow> jsval \<Rightarrow> heap" where
  "write_id h a v =
     (if a < length h then h[a := (''_id'', v) # filter (\<lambda>kv. fst kv \<noteq> ''_id'') (h ! a)] else h)"

text \<open>Truthiness, as \<open>&&\<close> and \<open>if\<close> test it.\<close>

fun truthy :: "jsval \<Rightarrow> bool" where
  "truthy JUndefined = False"
| "truthy JNull = False"
| "truthy (JNum n) = (n \<noteq> 0)"
| "truthy (JRef a) = True"
| "truthy (JRow i c) = True"

text \<open>
  The relational operator \<open>>=\<close>. Two objects both convert to the same string and
  compare as equal; otherwise both sides are converted to numbers, \<open>null\<close> to 0,
  \<open>undefined\<close> and an object to NaN (\<open>None\<close>), and a comparison with NaN is false.
\<close>

fun is_object :: "jsval \<Rightarrow> bool" where
  "is_object (JRef a) = True"
| "is_object (JRow i c) = True"
| "is_object v = False"

fun to_number :: "jsval \<Rightarrow> int option" where
  "to_number JUndefined = None"
| "to_number JNull = Some 0"
| "to_number (JNum n) = Some n"
| "to_number (JRef a) = None"
| "to_number (JRow i c) = None"

definition js_ge :: "jsval \<Rightarrow> jsval \<Rightarrow> bool" where
  "js_ge x y =
     (if is_object x \<and> is_object y then True
      else case to_number x of
             None \<Rightarrow> False
           | Some m \<Rightarrow> (case to_number y of None \<Rightarrow> False | Some n \<Rightarrow> n \<le> m))"

section \<open>The bounded cache\<close>

text \<open>
  Modelled from the spec: the \<open>lru-cache\<close> package, which every cache-backed connector
  instantiates with \<open>new LRU({ max: cacheSize })\<close>, is not among the sources. Following
  section 4.1 of the specification it is a map from game ids to values that holds at most
  \<open>max\<close> entries and evicts the least recently used one; \<open>get\<close> marks the entry
  as recently used, \<open>set\<close> inserts or replaces unconditionally, \<open>reset\<close>
  clears all entries. The entries are listed most recently used first, and a bound of 0
  stands for no bound.
\<close>

record lru =
  max_size :: nat
  entries :: "(string \<times> jsval) list"

definition LRU_new :: "nat \<Rightarrow> lru" where
  "LRU_new n = \<lparr>max_size = n, entries = []\<rparr>"

definition lru_trim :: "nat \<Rightarrow> (string \<times> jsval) list \<Rightarrow> (string \<times> jsval) list" where
  "lru_trim m es = (if m = 0 then es else take m es)"

definition lru_peek :: "lru \<Rightarrow> string \<Rightarrow> jsval option" where
  "lru_peek c k = map_of (entries c) k"

definition lru_get :: "lru \<Rightarrow> string \<Rightarrow> jsval \<times> lru" where
  "lru_get c k =
     (case map_of (entries c) k of
        None \<Rightarrow> (JUndefined, c)
      | Some v \<Rightarrow> (v, c\<lparr>entries := (k, v) # filter (\<lambda>e. fst e \<noteq> k) (entries c)\<rparr>))"

definition lru_set :: "lru \<Rightarrow> string \<Rightarrow> jsval \<Rightarrow> lru" where
  "lru_set c k v =
     c\<lparr>entries := lru_trim (max_size c) ((k, v) # filter (\<lambda>e. fst e \<noteq> k) (entries c))\<rparr>"

definition lru_reset :: "lru \<Rightarrow> lru" where
  "lru_reset c = c\<lparr>entries := []\<rparr>"

section \<open>Connector state, store outcomes\<close>

text \<open>
  What a cache-backed connector works on: the heap its references point into, its cache,
  the content of the durable store (of a type that depends on the backend), whether
  \<open>this.db\<close> has been assigned by \<open>connect\<close>, and what was written with
  \<open>console.error\<close>.

  Each \<open>await\<close> on a driver call either resumes with the driver's result or throws
  the driver's rejection; which of the two happens is an argument of the operation.
\<close>

record 'st conn =
  heap :: heap
  cache :: lru
  store :: 'st
  connected :: bool
  errlog :: "string list"

datatype io = IoOk | IoFail

datatype 'a outcome = Resolved 'a | Rejected error

text \<open>
  The guard of \<open>set\<close>, the same expression in the three connectors:
  \<open>cacheValue && cacheValue._stateID >= state._stateID\<close>. A truthy value is never
  \<open>undefined\<close> or \<open>null\<close>, so the property read cannot throw here.
\<close>

definition stale_write :: "heap \<Rightarrow> jsval \<Rightarrow> addr \<Rightarrow> bool" where
  "stale_write h cacheValue state =
     (truthy cacheValue \<and>
      (case read_stateID h cacheValue of
         Inl e \<Rightarrow> False
       | Inr k \<Rightarrow> js_ge k (stateID_at h state)))"

text \<open>\<open>docs[0]\<close> of a JavaScript array: \<open>undefined\<close> when the array is empty.\<close>

definition array_first :: "jsval list \<Rightarrow> jsval" where
  "array_first docs = (case docs of [] \<Rightarrow> JUndefined | d # ds \<Rightarrow> d)"

section \<open>The MongoDB connector\<close>

text \<open>
  Modelled from the spec: the MongoDB driver is not among the sources. Each game id names
  a collection. \<open>col.insert(state)\<close> is given the state object itself: when the call
  is made, the driver creates a new \<open>_id\<close> for a document that has none and writes
  it into that object, and the document with this \<open>_id\<close> is then added to the
  collection. The ids the driver creates grow from call to call (\<open>next_oid\<close> is
  the next one), so that \<open>find().sort({_id: -1}).limit(1)\<close> is the most recently
  inserted document (the specification's most-recent-by-identity-order query of an
  append-only backend). A collection is listed newest first; the \<open>_id\<close> is
  represented by a number.
\<close>

record mongo_store =
  collections :: "string \<Rightarrow> props list"
  next_oid :: int

definition mongo_empty :: mongo_store where
  "mongo_empty = \<lparr>collections = (\<lambda>c. []), next_oid = 0\<rparr>"

text \<open>The document of an \<open>insert\<close> arrives in its collection.\<close>

definition mongo_insert :: "string \<Rightarrow> props \<Rightarrow> mongo_store \<Rightarrow> mongo_store" where
  "mongo_insert col doc st = st\<lparr>collections := (collections st)(col := doc # collections st col)\<rparr>"

text \<open>
  The constructor: a new cache of \<open>cacheSize\<close> entries, 1000 when the argument is
  left out; \<open>this.db\<close> is assigned by \<open>connect\<close> only.
\<close>

definition Mongo_new :: "nat option \<Rightarrow> heap \<Rightarrow> mongo_store \<Rightarrow> mongo_store conn" where
  "Mongo_new cacheSize h st =
     \<lparr>heap = h, cache = LRU_new (case cacheSize of None \<Rightarrow> 1000 | Some n \<Rightarrow> n), store = st, connected = False, errlog = []\<rparr>"

text \<open>
  \<open>connect\<close>: \<open>const c = await this.client.connect(this.url); this.db = c.db(this.dbname)\<close>.
  There is no handler around the \<open>await\<close>.
\<close>

definition Mongo_connect :: "unit outcome \<Rightarrow> mongo_store conn \<Rightarrow> (error + unit) \<times> mongo_store conn" where
  "Mongo_connect c s =
     (case c of
        Rejected e \<Rightarrow> (Inl e, s)
      | Resolved u \<Rightarrow> (Inr (), s\<lparr>connected := True\<rparr>))"

text \<open>
  \<open>set\<close> up to its \<open>await\<close>: the result is \<open>Inr None\<close> when the write is
  discarded as stale, \<open>Inr (Some doc)\<close> when \<open>col.insert(state)\<close> has been
  called, where \<open>doc\<close> is the document on its way to the collection. The call
  leaves the new \<open>_id\<close> in the state object, after \<open>delete state._id\<close> has
  removed the one it came with.
\<close>

definition Mongo_set_begin :: "string \<Rightarrow> addr \<Rightarrow> mongo_store conn \<Rightarrow> (error + props option) \<times> mongo_store conn" where
  "Mongo_set_begin gid state s =
     (let (cacheValue, c1) = lru_get (cache s) gid in
      if stale_write (heap s) cacheValue state then (Inr None, s\<lparr>cache := c1\<rparr>)
      else
        let c2 = lru_set c1 gid (JRef state) in
        if \<not> connected s then (Inl TypeError, s\<lparr>cache := c2\<rparr>)
        else
          let h2 = delete_id (heap s) state;
              oid = JNum (next_oid (store s));
              doc = (''_id'', oid) # props_of h2 state
          in (Inr (Some doc),
              s\<lparr>heap := write_id h2 state oid, cache := c2,
                store := (store s)\<lparr>next_oid := next_oid (store s) + 1\<rparr>\<rparr>))"

definition Mongo_set :: "string \<Rightarrow> addr \<Rightarrow> io \<Rightarrow> mongo_store conn \<Rightarrow> (error + unit) \<times> mongo_store conn" where
  "Mongo_set gid state r s =
     (case Mongo_set_begin gid state s of
        (Inl e, s1) \<Rightarrow> (Inl e, s1)
      | (Inr None, s1) \<Rightarrow> (Inr (), s1)
      | (Inr (Some doc), s1) \<Rightarrow>
          (case r of
             IoFail \<Rightarrow> (Inl StoreError, s1)
           | IoOk \<Rightarrow> (Inr (), s1\<lparr>store := mongo_insert gid doc (store s1)\<rparr>)))"

text \<open>
  \<open>get\<close> up to its \<open>await\<close>: \<open>Inr (Some v)\<close> when the cache answers,
  \<open>Inr None\<close> when the query has been issued.
\<close>

definition Mongo_get_begin :: "string \<Rightarrow> mongo_store conn \<Rightarrow> (error + jsval option) \<times> mongo_store conn" where
  "Mongo_get_begin gid s =
     (let (cacheValue, c1) = lru_get (cache s) gid in
      if cacheValue \<noteq> JUndefined then (Inr (Some cacheValue), s\<lparr>cache := c1\<rparr>)
      else if \<not> connected s then (Inl TypeError, s\<lparr>cache := c1\<rparr>)
      else (Inr None, s\<lparr>cache := c1\<rparr>))"

text \<open>The query \<open>find().sort({_id: -1}).limit(1).toArray()\<close>: the documents are new objects.\<close>

definition Mongo_find_latest :: "string \<Rightarrow> mongo_store conn \<Rightarrow> jsval list \<times> mongo_store conn" where
  "Mongo_find_latest gid s =
     (case collections (store s) gid of
        [] \<Rightarrow> ([], s)
      | doc # older \<Rightarrow> (let (r, h1) = alloc (heap s) doc in ([r], s\<lparr>heap := h1\<rparr>)))"

text \<open>\<open>get\<close> from the point where the query has delivered \<open>docs\<close>.\<close>

definition Mongo_get_resume :: "string \<Rightarrow> jsval list \<Rightarrow> mongo_store conn \<Rightarrow> (error + jsval) \<times> mongo_store conn" where
  "Mongo_get_resume gid docs s =
     (let (cacheValue, c1) = lru_get (cache s) gid in
      case (if cacheValue \<noteq> JUndefined then read_stateID (heap s) cacheValue else Inr (JNum 0)) of
        Inl e \<Rightarrow> (Inl e, s\<lparr>cache := c1\<rparr>)
      | Inr oldStateID \<Rightarrow>
          (case (if length docs > 0 then read_stateID (heap s) (array_first docs) else Inr (JNum (- 1))) of
             Inl e \<Rightarrow> (Inl e, s\<lparr>cache := c1\<rparr>)
           | Inr newStateID \<Rightarrow>
               (Inr (array_first docs),
                s\<lparr>cache := (if js_ge newStateID oldStateID then lru_set c1 gid (array_first docs) else c1)\<rparr>)))"

definition Mongo_get :: "string \<Rightarrow> io \<Rightarrow> mongo_store conn \<Rightarrow> (error + jsval) \<times> mongo_store conn" where
  "Mongo_get gid r s =
     (case Mongo_get_begin gid s of
        (Inl e, s1) \<Rightarrow> (Inl e, s1)
      | (Inr (Some v), s1) \<Rightarrow> (Inr v, s1)
      | (Inr None, s1) \<Rightarrow>
          (case r of
             IoFail \<Rightarrow> (Inl StoreError, s1)
           | IoOk \<Rightarrow> (let (docs, s2) = Mongo_find_latest gid s1 in Mongo_get_resume gid docs s2)))"

text \<open>
  The query \<open>find().limit(1).toArray()\<close> of \<open>has\<close>: the first document in
  insertion order, as a new object.
\<close>

definition Mongo_find_first :: "string \<Rightarrow> mongo_store conn \<Rightarrow> jsval list \<times> mongo_store conn" where
  "Mongo_find_first gid s =
     (case rev (collections (store s) gid) of
        [] \<Rightarrow> ([], s)
      | doc # newer \<Rightarrow> (let (r, h1) = alloc (heap s) doc in ([r], s\<lparr>heap := h1\<rparr>)))"

definition Mongo_has :: "string \<Rightarrow> io \<Rightarrow> mongo_store conn \<Rightarrow> (error + bool) \<times> mongo_store conn" where
  "Mongo_has gid r s =
     (let (cacheValue, c1) = lru_get (cache s) gid in
      if cacheValue \<noteq> JUndefined then (Inr True, s\<lparr>cache := c1\<rparr>)
      else if \<not> connected s then (Inl TypeError, s\<lparr>cache := c1\<rparr>)
      else
        (case r of
           IoFail \<Rightarrow> (Inl StoreError, s\<lparr>cache := c1\<rparr>)
         | IoOk \<Rightarrow> (let (docs, s2) = Mongo_find_first gid (s\<lparr>cache := c1\<rparr>) in (Inr (length docs > 0), s2))))"

section \<open>The SQL connector\<close>

text \<open>
  Modelled from the spec: the Sequelize driver is not among the sources. The
  constructors keep two objects: the connection \<open>this.db = new Sequelize(...)\<close> and
  the model of the table, \<open>this.game = this.db.define('game', GameModel)\<close>. The
  table \<open>game\<close> has the columns \<open>id\<close> (unique, primary key) and \<open>ctx\<close>
  (JSON), as \<open>GameModel\<close> declares. The queries are methods of the model:
  \<open>this.game.upsert\<close> replaces the row with the given id or inserts one. The
  connection has \<open>authenticate\<close> and \<open>define\<close> but no \<open>findOne\<close>:
  \<open>this.db.findOne\<close> is \<open>undefined\<close>, and calling it throws a TypeError.
\<close>

record sql_store =
  rows :: "(string \<times> props) list"
  synced :: bool

definition sql_empty :: sql_store where
  "sql_empty = \<lparr>rows = [], synced = False\<rparr>"

definition sql_upsert :: "string \<Rightarrow> props \<Rightarrow> sql_store \<Rightarrow> sql_store" where
  "sql_upsert gid ctx st =
     (case map_of (rows st) gid of
        None \<Rightarrow> st\<lparr>rows := rows st @ [(gid, ctx)]\<rparr>
      | Some old \<Rightarrow> st\<lparr>rows := map (\<lambda>r. if fst r = gid then (gid, ctx) else r) (rows st)\<rparr>)"

text \<open>
  The constructor of the subclasses (\<open>SQLite\<close>, \<open>MySQL\<close>): the database
  handle, the model of the table and a new cache of \<open>cacheSize\<close> entries, 1000
  when the argument is left out.
\<close>

definition SQL_new :: "nat option \<Rightarrow> heap \<Rightarrow> sql_store \<Rightarrow> sql_store conn" where
  "SQL_new cacheSize h st =
     \<lparr>heap = h, cache = LRU_new (case cacheSize of None \<Rightarrow> 1000 | Some n \<Rightarrow> n), store = st, connected = True, errlog = []\<rparr>"

text \<open>
  \<open>connect\<close>: the value \<open>authenticate()\<close> resolves to is taken for an error when it
  is truthy, written to the console, and \<open>connect\<close> returns; otherwise the table is
  synchronised. A rejection of \<open>authenticate()\<close> is not handled.
\<close>

definition SQL_connect :: "jsval outcome \<Rightarrow> sql_store conn \<Rightarrow> (error + unit) \<times> sql_store conn" where
  "SQL_connect a s =
     (case a of
        Rejected e \<Rightarrow> (Inl e, s)
      | Resolved c \<Rightarrow>
          if truthy c then (Inr (), s\<lparr>errlog := errlog s @ [''Connection error'']\<rparr>)
          else (Inr (), s\<lparr>store := (store s)\<lparr>synced := True\<rparr>\<rparr>))"

definition SQL_set_begin :: "string \<Rightarrow> addr \<Rightarrow> sql_store conn \<Rightarrow> (error + props option) \<times> sql_store conn" where
  "SQL_set_begin gid state s =
     (let (cacheValue, c1) = lru_get (cache s) gid in
      if stale_write (heap s) cacheValue state then (Inr None, s\<lparr>cache := c1\<rparr>)
      else
        let c2 = lru_set c1 gid (JRef state);
            h2 = delete_id (heap s) state in
        (Inr (Some (props_of h2 state)), s\<lparr>heap := h2, cache := c2\<rparr>))"

definition SQL_set :: "string \<Rightarrow> addr \<Rightarrow> io \<Rightarrow> sql_store conn \<Rightarrow> (error + unit) \<times> sql_store conn" where
  "SQL_set gid state r s =
     (case SQL_set_begin gid state s of
        (Inl e, s1) \<Rightarrow> (Inl e, s1)
      | (Inr None, s1) \<Rightarrow> (Inr (), s1)
      | (Inr (Some ctx), s1) \<Rightarrow>
          (case r of
             IoFail \<Rightarrow> (Inl StoreError, s1)
           | IoOk \<Rightarrow> (Inr (), s1\<lparr>store := sql_upsert gid ctx (store s1)\<rparr>)))"

text \<open>
  \<open>get\<close> as far as it runs: the cache answers, or the call
  \<open>this.db.findOne({ where: { id } })\<close> throws a TypeError, before anything is
  awaited.
\<close>

definition SQL_get_begin :: "string \<Rightarrow> sql_store conn \<Rightarrow> (error + jsval) \<times> sql_store conn" where
  "SQL_get_begin gid s =
     (let (cacheValue, c1) = lru_get (cache s) gid in
      if cacheValue \<noteq> JUndefined then (Inr cacheValue, s\<lparr>cache := c1\<rparr>)
      else (Inl TypeError, s\<lparr>cache := c1\<rparr>))"

text \<open>
  The rest of \<open>get\<close>, from \<open>let oldStateID = 0\<close> to \<open>return doc.ctx\<close>, for
  a value \<open>doc\<close> of the awaited query. No call of \<open>get\<close> reaches it as long as
  the query is \<open>this.db.findOne\<close>; it is what the function would go on to do with
  a row or with \<open>null\<close>.
\<close>

definition SQL_get_resume :: "string \<Rightarrow> jsval \<Rightarrow> sql_store conn \<Rightarrow> (error + jsval) \<times> sql_store conn" where
  "SQL_get_resume gid doc s =
     (let (cacheValue, c1) = lru_get (cache s) gid in
      case (if cacheValue \<noteq> JUndefined then read_stateID (heap s) cacheValue else Inr (JNum 0)) of
        Inl e \<Rightarrow> (Inl e, s\<lparr>cache := c1\<rparr>)
      | Inr oldStateID \<Rightarrow>
          (case (if truthy doc then read_stateID (heap s) doc else Inr (JNum (- 1))) of
             Inl e \<Rightarrow> (Inl e, s\<lparr>cache := c1\<rparr>)
           | Inr newStateID \<Rightarrow>
               (let s1 = s\<lparr>cache := (if js_ge newStateID oldStateID then lru_set c1 gid doc else c1)\<rparr> in
                case read_ctx (heap s) doc of
                  Inl e \<Rightarrow> (Inl e, s1)
                | Inr v \<Rightarrow> (Inr v, s1))))"

text \<open>
  \<open>get\<close>, run to its end. The driver is never asked, so its outcome \<open>r\<close> has no
  part in the result.
\<close>

definition SQL_get :: "string \<Rightarrow> io \<Rightarrow> sql_store conn \<Rightarrow> (error + jsval) \<times> sql_store conn" where
  "SQL_get gid r s = SQL_get_begin gid s"

text \<open>
  \<open>has\<close>: the cache, then the call \<open>this.db.findOne({ where: { id } })\<close>, which
  throws; \<open>return doc !== null\<close> is not reached.
\<close>

definition SQL_has :: "string \<Rightarrow> io \<Rightarrow> sql_store conn \<Rightarrow> (error + bool) \<times> sql_store conn" where
  "SQL_has gid r s =
     (let (cacheValue, c1) = lru_get (cache s) gid in
      if cacheValue \<noteq> JUndefined then (Inr True, s\<lparr>cache := c1\<rparr>)
      else (Inl TypeError, s\<lparr>cache := c1\<rparr>))"

section \<open>The Firebase connector\<close>

text \<open>
  Modelled from the spec: the Firebase SDK is not among the sources. Both engines keep one
  document per path; \<open>col.set\<close> replaces it by a copy of the state. What
  \<open>val()\<close> of the realtime database and \<open>data()\<close> of Firestore give for a
  path without a document is a value of the store, \<open>absent_value\<close>: the two
  calls are the SDK's, and the repository's tests expect \<open>null\<close> of both. The
  connector's \<open>console.log\<close> lines are not part of the model.
\<close>

datatype engine = RTD | Firestore

record firebase_store =
  engine :: engine
  absent_value :: jsval
  documents :: "string \<rightharpoonup> props"

definition firebase_empty :: "engine \<Rightarrow> jsval \<Rightarrow> firebase_store" where
  "firebase_empty e absent = \<lparr>engine = e, absent_value = absent, documents = Map.empty\<rparr>"

text \<open>The constructor, with the same default for \<open>cacheSize\<close>.\<close>

definition Firebase_new :: "nat option \<Rightarrow> heap \<Rightarrow> firebase_store \<Rightarrow> firebase_store conn" where
  "Firebase_new cacheSize h st =
     \<lparr>heap = h, cache = LRU_new (case cacheSize of None \<Rightarrow> 1000 | Some n \<Rightarrow> n), store = st, connected = False, errlog = []\<rparr>"

text \<open>
  \<open>connect\<close>: \<open>initializeApp(config)\<close> and the choice of \<open>firestore()\<close> or
  \<open>database()\<close>, with no handler around them.
\<close>

definition Firebase_connect :: "unit outcome \<Rightarrow> firebase_store conn \<Rightarrow> (error + unit) \<times> firebase_store conn" where
  "Firebase_connect c s =
     (case c of
        Rejected e \<Rightarrow> (Inl e, s)
      | Resolved u \<Rightarrow> (Inr (), s\<lparr>connected := True\<rparr>))"

definition Firebase_set_begin :: "string \<Rightarrow> addr \<Rightarrow> firebase_store conn \<Rightarrow> (error + props option) \<times> firebase_store conn" where
  "Firebase_set_begin gid state s =
     (let (cacheValue, c1) = lru_get (cache s) gid in
      if stale_write (heap s) cacheValue state then (Inr None, s\<lparr>cache := c1\<rparr>)
      else
        let c2 = lru_set c1 gid (JRef state) in
        if \<not> connected s then (Inl TypeError, s\<lparr>cache := c2\<rparr>)
        else
          let h2 = delete_id (heap s) state in
          (Inr (Some (props_of h2 state)), s\<lparr>heap := h2, cache := c2\<rparr>))"

definition Firebase_set :: "string \<Rightarrow> addr \<Rightarrow> io \<Rightarrow> firebase_store conn \<Rightarrow> (error + unit) \<times> firebase_store conn" where
  "Firebase_set gid state r s =
     (case Firebase_set_begin gid state s of
        (Inl e, s1) \<Rightarrow> (Inl e, s1)
      | (Inr None, s1) \<Rightarrow> (Inr (), s1)
      | (Inr (Some doc), s1) \<Rightarrow>
          (case r of
             IoFail \<Rightarrow> (Inl StoreError, s1)
           | IoOk \<Rightarrow>
               (Inr (), s1\<lparr>store := (store s1)\<lparr>documents := (documents (store s1))(gid \<mapsto> doc)\<rparr>\<rparr>)))"

definition Firebase_get_begin :: "string \<Rightarrow> firebase_store conn \<Rightarrow> (error + jsval option) \<times> firebase_store conn" where
  "Firebase_get_begin gid s =
     (let (cacheValue, c1) = lru_get (cache s) gid in
      if cacheValue \<noteq> JUndefined then (Inr (Some cacheValue), s\<lparr>cache := c1\<rparr>)
      else if \<not> connected s then (Inl TypeError, s\<lparr>cache := c1\<rparr>)
      else (Inr None, s\<lparr>cache := c1\<rparr>))"

text \<open>\<open>(await col.once('value')).val()\<close> or \<open>(await col.get()).data()\<close>.\<close>

definition Firebase_read :: "string \<Rightarrow> firebase_store conn \<Rightarrow> jsval \<times> firebase_store conn" where
  "Firebase_read gid s =
     (case documents (store s) gid of
        None \<Rightarrow> (absent_value (store s), s)
      | Some doc \<Rightarrow> (let (r, h1) = alloc (heap s) doc in (r, s\<lparr>heap := h1\<rparr>)))"

definition Firebase_get_resume :: "string \<Rightarrow> jsval \<Rightarrow> firebase_store conn \<Rightarrow> (error + jsval) \<times> firebase_store conn" where
  "Firebase_get_resume gid doc s =
     (let (cacheValue, c1) = lru_get (cache s) gid in
      case (if cacheValue \<noteq> JUndefined then read_stateID (heap s) cacheValue else Inr (JNum 0)) of
        Inl e \<Rightarrow> (Inl e, s\<lparr>cache := c1\<rparr>)
      | Inr oldStateID \<Rightarrow>
          (case (if truthy doc then read_stateID (heap s) doc else Inr (JNum (- 1))) of
             Inl e \<Rightarrow> (Inl e, s\<lparr>cache := c1\<rparr>)
           | Inr newStateID \<Rightarrow>
               (Inr doc,
                s\<lparr>cache := (if js_ge newStateID oldStateID then lru_set c1 gid doc else c1)\<rparr>)))"

definition Firebase_get :: "string \<Rightarrow> io \<Rightarrow> firebase_store conn \<Rightarrow> (error + jsval) \<times> firebase_store conn" where
  "Firebase_get gid r s =
     (case Firebase_get_begin gid s of
        (Inl e, s1) \<Rightarrow> (Inl e, s1)
      | (Inr (Some v), s1) \<Rightarrow> (Inr v, s1)
      | (Inr None, s1) \<Rightarrow>
          (case r of
             IoFail \<Rightarrow> (Inl StoreError, s1)
           | IoOk \<Rightarrow> (let (doc, s2) = Firebase_read gid s1 in Firebase_get_resume gid doc s2)))"

text \<open>\<open>has\<close>: the cache, then \<open>exists\<close> of the snapshot read from the path.\<close>

definition Firebase_has :: "string \<Rightarrow> io \<Rightarrow> firebase_store conn \<Rightarrow> (error + bool) \<times> firebase_store conn" where
  "Firebase_has gid r s =
     (let (cacheValue, c1) = lru_get (cache s) gid in
      if cacheValue \<noteq> JUndefined then (Inr True, s\<lparr>cache := c1\<rparr>)
      else if \<not> connected s then (Inl TypeError, s\<lparr>cache := c1\<rparr>)
      else
        (case r of
           IoFail \<Rightarrow> (Inl StoreError, s\<lparr>cache := c1\<rparr>)
         | IoOk \<Rightarrow> (Inr (documents (store s) gid \<noteq> None), s\<lparr>cache := c1\<rparr>)))"

section \<open>The in-memory connector\<close>

text \<open>
  \<open>class InMemory\<close>: a \<open>Map\<close> from game ids to the values passed to \<open>set\<close>.
  \<open>Map.get\<close> gives \<open>undefined\<close> for a missing key.
\<close>

record inmemory =
  games :: "string \<rightharpoonup> jsval"

definition InMemory_new :: inmemory where
  "InMemory_new = \<lparr>games = Map.empty\<rparr>"

definition InMemory_connect :: "inmemory \<Rightarrow> inmemory" where
  "InMemory_connect m = m"

definition InMemory_set :: "string \<Rightarrow> jsval \<Rightarrow> inmemory \<Rightarrow> inmemory" where
  "InMemory_set gid state m = m\<lparr>games := (games m)(gid \<mapsto> state)\<rparr>"

definition InMemory_get :: "string \<Rightarrow> inmemory \<Rightarrow> jsval" where
  "InMemory_get gid m = (case games m gid of None \<Rightarrow> JUndefined | Some v \<Rightarrow> v)"

definition InMemory_has :: "string \<Rightarrow> inmemory \<Rightarrow> bool" where
  "InMemory_has gid m = (games m gid \<noteq> None)"

section \<open>Notions the properties are stated with\<close>

text \<open>
  The state id the cache holds for a game: defined when the entry refers to an object
  whose \<open>_stateID\<close> is an integer.
\<close>

definition cache_stateID :: "'st conn \<Rightarrow> string \<Rightarrow> int option" where
  "cache_stateID s gid =
     (case lru_peek (cache s) gid of
        Some (JRef c) \<Rightarrow> (case stateID_at (heap s) c of JNum k \<Rightarrow> Some k | _ \<Rightarrow> None)
      | _ \<Rightarrow> None)"

text \<open>
  The cache holds a state for the game whose state id is at least that of the object
  \<open>state\<close>, in the sense of \<open>>=\<close>.
\<close>

definition cache_not_older :: "'st conn \<Rightarrow> string \<Rightarrow> addr \<Rightarrow> bool" where
  "cache_not_older s gid state =
     (case lru_peek (cache s) gid of
        Some (JRef c) \<Rightarrow> js_ge (stateID_at (heap s) c) (stateID_at (heap s) state)
      | _ \<Rightarrow> False)"

text \<open>
  Heap, store and the content of the cache are the same in two states (the order in
  which the cache lists its entries, its record of recent use, may differ).
\<close>

definition same_cache_and_store :: "'st conn \<Rightarrow> 'st conn \<Rightarrow> bool" where
  "same_cache_and_store s s' =
     (heap s' = heap s \<and> store s' = store s \<and> max_size (cache s') = max_size (cache s)
      \<and> lru_peek (cache s') = lru_peek (cache s))"

text \<open>A cache hit, as the connectors test it: \<open>cache.get(id) !== undefined\<close>.\<close>

definition cache_hit :: "lru \<Rightarrow> string \<Rightarrow> bool" where
  "cache_hit c gid = (case lru_peek c gid of None \<Rightarrow> False | Some v \<Rightarrow> v \<noteq> JUndefined)"

text \<open>The object at an address has no \<open>_id\<close> property.\<close>

definition lacks_id :: "heap \<Rightarrow> addr \<Rightarrow> bool" where
  "lacks_id h a = (map_of (props_of h a) ''_id'' = None)"

text \<open>A property list without its \<open>_id\<close> entries: what \<open>set\<close> hands to the driver.\<close>

definition without_id :: "props \<Rightarrow> props" where
  "without_id ps = filter (\<lambda>kv. fst kv \<noteq> ''_id'') ps"

section \<open>Example states\<close>

text \<open>
  A heap with three states, of state ids 1, 0 and 2, and the three connectors after
  \<open>connect\<close> and a \<open>set\<close> of the first state under the id \<open>gameID\<close>.
\<close>

definition example_heap :: heap where
  "example_heap = [[(''_stateID'', JNum 1)], [(''_stateID'', JNum 0)], [(''_stateID'', JNum 2)]]"

definition SQL_example :: "sql_store conn" where
  "SQL_example = snd (SQL_set ''gameID'' 0 IoOk (SQL_new None example_heap sql_empty))"

definition Mongo_example :: "mongo_store conn" where
  "Mongo_example =
     snd (Mongo_set ''gameID'' 0 IoOk
            (snd (Mongo_connect (Resolved ()) (Mongo_new None example_heap mongo_empty))))"

definition Firebase_example :: "firebase_store conn" where
  "Firebase_example =
     snd (Firebase_set ''gameID'' 0 IoOk
            (snd (Firebase_connect (Resolved ()) (Firebase_new None example_heap (firebase_empty RTD JNull)))))"

text \<open>
  A heap with one state that carries an \<open>_id\<close>, as a state fetched from the store and
  handed back to \<open>set\<close> does, and connected connectors with empty caches over it.
\<close>

definition fetched_heap :: heap where
  "fetched_heap = [[(''_id'', JNum 7), (''_stateID'', JNum 3)]]"

definition Mongo_fetched :: "mongo_store conn" where
  "Mongo_fetched = snd (Mongo_connect (Resolved ()) (Mongo_new None fetched_heap mongo_empty))"

definition Firebase_fetched :: "firebase_store conn" where
  "Firebase_fetched =
     snd (Firebase_connect (Resolved ()) (Firebase_new None fetched_heap (firebase_empty Firestore JUndefined)))"

section \<open>Sequences of calls\<close>

text \<open>Any number of \<open>set\<close> calls of the SQL connector, each run to its end.\<close>

fun SQL_sets :: "(string \<times> addr \<times> io) list \<Rightarrow> sql_store conn \<Rightarrow> sql_store conn" where
  "SQL_sets [] s = s"
| "SQL_sets ((gid, state, r) # calls) s = SQL_sets calls (snd (SQL_set gid state r s))"

text \<open>
  The connector with its cache emptied (\<open>db.cache.reset()\<close>), as after the eviction
  of every entry: a cold cache.
\<close>

definition cold :: "'st conn \<Rightarrow> 'st conn" where
  "cold s = s\<lparr>cache := lru_reset (cache s)\<rparr>"

text \<open>
  A heap with a state that has no \<open>_stateID\<close> and a state whose \<open>_stateID\<close> is
  negative, and a connected MongoDB connector over it.
\<close>

definition odd_heap :: heap where
  "odd_heap = [[(''a'', JNum 1)], [(''_stateID'', JNum (- 1))]]"

definition Mongo_odd :: "mongo_store conn" where
  "Mongo_odd = snd (Mongo_connect (Resolved ()) (Mongo_new None odd_heap mongo_empty))"

section \<open>The re-check of \<open>get\<close> in the words of the specification\<close>

text \<open>
  For a cache entry and a store result that are each a game state or absent:
  \<open>oldStateID\<close> is the state id of the cache's current entry if one is present and
  0 otherwise, \<open>newStateID\<close> is the state id of the store's document if one was
  found and \<open>-1\<close> otherwise, and the store's result is written into the cache if
  and only if \<open>newStateID >= oldStateID\<close>.
\<close>

definition spec_oldStateID :: "heap \<Rightarrow> addr option \<Rightarrow> jsval" where
  "spec_oldStateID h entry = (case entry of None \<Rightarrow> JNum 0 | Some a \<Rightarrow> stateID_at h a)"

definition spec_newStateID :: "heap \<Rightarrow> addr option \<Rightarrow> jsval" where
  "spec_newStateID h found = (case found of None \<Rightarrow> JNum (- 1) | Some d \<Rightarrow> stateID_at h d)"

definition spec_get_writes :: "heap \<Rightarrow> addr option \<Rightarrow> addr option \<Rightarrow> bool" where
  "spec_get_writes h entry found = js_ge (spec_newStateID h found) (spec_oldStateID h entry)"

text \<open>
  What the store delivers for such a result: the array of the MongoDB query, and the
  value of the Firebase read, where \<open>absent\<close> is the value that stands for no
  document.
\<close>

definition found_docs :: "addr option \<Rightarrow> jsval list" where
  "found_docs found = (case found of None \<Rightarrow> [] | Some d \<Rightarrow> [JRef d])"

definition found_doc :: "jsval \<Rightarrow> addr option \<Rightarrow> jsval" where
  "found_doc absent found = (case found of None \<Rightarrow> absent | Some d \<Rightarrow> JRef d)"

section \<open>Interleavings\<close>

text \<open>
  The operations are \<open>async\<close> functions: each runs without interruption up to an
  \<open>await\<close> on a driver call and is resumed later with the driver's answer, and
  other operations run in between. The steps of a connector are therefore the
  synchronous parts of its operations and the actions of the driver: the part of
  \<open>set\<close> before its \<open>await\<close>, the write of a document by the driver, the part
  of \<open>get\<close> before its \<open>await\<close>, the query of the driver (which creates the
  objects it delivers), and the part of \<open>get\<close> after the \<open>await\<close>, resumed with
  a result. The result a \<open>get\<close> is resumed with is left open: every value is
  allowed, whenever it was read. \<open>has\<close> touches the cache before its \<open>await\<close>
  only and its query changes nothing but the heap, so it is one step. A run is any
  sequence of such steps, for any game ids: every interleaving of \<open>get\<close>,
  \<open>set\<close> and \<open>has\<close> calls is among the runs.

  The SQL connector issues no query, its \<open>get\<close> throws at the call: its query
  step changes nothing, and the step that resumes \<open>get\<close> with a result belongs
  to no call. The runs of the SQL connector keep it all the same, so that they cover what
  the rest of \<open>get\<close> would do with any result.
\<close>

datatype 'd event =
    Set_begins string addr
  | Driver_writes string props
  | Get_begins string
  | Driver_reads string
  | Get_resumes string 'd
  | Has_runs string io

fun SQL_step :: "jsval event \<Rightarrow> sql_store conn \<Rightarrow> sql_store conn" where
  "SQL_step (Set_begins gid state) s = snd (SQL_set_begin gid state s)"
| "SQL_step (Driver_writes gid ctx) s = s\<lparr>store := sql_upsert gid ctx (store s)\<rparr>"
| "SQL_step (Get_begins gid) s = snd (SQL_get_begin gid s)"
| "SQL_step (Driver_reads gid) s = s"
| "SQL_step (Get_resumes gid doc) s = snd (SQL_get_resume gid doc s)"
| "SQL_step (Has_runs gid r) s = snd (SQL_has gid r s)"

fun Mongo_step :: "jsval list event \<Rightarrow> mongo_store conn \<Rightarrow> mongo_store conn" where
  "Mongo_step (Set_begins gid state) s = snd (Mongo_set_begin gid state s)"
| "Mongo_step (Driver_writes gid doc) s = s\<lparr>store := mongo_insert gid doc (store s)\<rparr>"
| "Mongo_step (Get_begins gid) s = snd (Mongo_get_begin gid s)"
| "Mongo_step (Driver_reads gid) s = snd (Mongo_find_latest gid s)"
| "Mongo_step (Get_resumes gid docs) s = snd (Mongo_get_resume gid docs s)"
| "Mongo_step (Has_runs gid r) s = snd (Mongo_has gid r s)"

fun Firebase_step :: "jsval event \<Rightarrow> firebase_store conn \<Rightarrow> firebase_store conn" where
  "Firebase_step (Set_begins gid state) s = snd (Firebase_set_begin gid state s)"
| "Firebase_step (Driver_writes gid doc) s =
     s\<lparr>store := (store s)\<lparr>documents := (documents (store s))(gid \<mapsto> doc)\<rparr>\<rparr>"
| "Firebase_step (Get_begins gid) s = snd (Firebase_get_begin gid s)"
| "Firebase_step (Driver_reads gid) s = snd (Firebase_read gid s)"
| "Firebase_step (Get_resumes gid doc) s = snd (Firebase_get_resume gid doc s)"
| "Firebase_step (Has_runs gid r) s = snd (Firebase_has gid r s)"

text \<open>The states a run passes through, the first one included.\<close>

fun trace :: "('e \<Rightarrow> 's \<Rightarrow> 's) \<Rightarrow> 'e list \<Rightarrow> 's \<Rightarrow> 's list" where
  "trace step [] s = [s]"
| "trace step (e # es) s = s # trace step es (step e s)"

text \<open>
  Between two states the cache entry of a game is not downgraded: when it refers to a
  state with an integer state id before and after, the id after is not the smaller one.
\<close>

definition no_downgrade :: "string \<Rightarrow> 'st conn \<Rightarrow> 'st conn \<Rightarrow> bool" where
  "no_downgrade gid s s' =
     (case (cache_stateID s gid, cache_stateID s' gid) of
        (Some k, Some k') \<Rightarrow> k \<le> k'
      | _ \<Rightarrow> True)"

text \<open>
  The re-check of \<open>get\<close> reaches its comparison and the comparison holds: neither
  property read throws, and \<open>newStateID >= oldStateID\<close>. \<open>present\<close> says whether
  the store delivered a document, as the connector tests it.
\<close>

definition recheck_passes :: "heap \<Rightarrow> jsval \<Rightarrow> bool \<Rightarrow> jsval \<Rightarrow> bool" where
  "recheck_passes h cacheValue present doc =
     (case (if cacheValue \<noteq> JUndefined then read_stateID h cacheValue else Inr (JNum 0)) of
        Inl e \<Rightarrow> False
      | Inr oldStateID \<Rightarrow>
          (case (if present then read_stateID h doc else Inr (JNum (- 1))) of
             Inl e \<Rightarrow> False
           | Inr newStateID \<Rightarrow> js_ge newStateID oldStateID))"

section \<open>Evaluation of the model\<close>

lemmas js_defs = alloc_def props_of_def lookup_prop_def stateID_at_def delete_id_def write_id_def js_ge_def
  stale_write_def array_first_def without_id_def lacks_id_def Let_def
lemmas lru_defs = LRU_new_def lru_trim_def lru_peek_def lru_get_def lru_set_def lru_reset_def
lemmas sql_defs = sql_empty_def sql_upsert_def SQL_new_def SQL_connect_def SQL_set_begin_def SQL_set_def
  SQL_get_begin_def SQL_get_resume_def SQL_get_def SQL_has_def
lemmas mongo_defs = mongo_empty_def mongo_insert_def Mongo_new_def Mongo_connect_def Mongo_set_begin_def
  Mongo_set_def Mongo_get_begin_def Mongo_find_latest_def Mongo_get_resume_def Mongo_get_def
  Mongo_find_first_def Mongo_has_def
lemmas firebase_defs = firebase_empty_def Firebase_new_def Firebase_connect_def Firebase_set_begin_def
  Firebase_set_def Firebase_get_begin_def Firebase_read_def Firebase_get_resume_def Firebase_get_def
  Firebase_has_def

lemma SQL_example_eval:
  "heap SQL_example = example_heap"
  "cache SQL_example = \<lparr>max_size = 1000, entries = [(''gameID'', JRef 0)]\<rparr>"
  "rows (store SQL_example) = [(''gameID'', [(''_stateID'', JNum 1)])]"
  by (simp_all add: SQL_example_def example_heap_def js_defs lru_defs sql_defs)

lemma Mongo_example_eval:
  "heap Mongo_example =
     [[(''_id'', JNum 0), (''_stateID'', JNum 1)], [(''_stateID'', JNum 0)], [(''_stateID'', JNum 2)]]"
  "cache Mongo_example = \<lparr>max_size = 1000, entries = [(''gameID'', JRef 0)]\<rparr>"
  "collections (store Mongo_example) ''gameID'' = [[(''_id'', JNum 0), (''_stateID'', JNum 1)]]"
  "next_oid (store Mongo_example) = 1"
  "connected Mongo_example"
  by (simp_all add: Mongo_example_def example_heap_def js_defs lru_defs mongo_defs)

lemma Firebase_example_eval:
  "heap Firebase_example = example_heap"
  "cache Firebase_example = \<lparr>max_size = 1000, entries = [(''gameID'', JRef 0)]\<rparr>"
  "documents (store Firebase_example) ''gameID'' = Some [(''_stateID'', JNum 1)]"
  "engine (store Firebase_example) = RTD"
  "connected Firebase_example"
  by (simp_all add: Firebase_example_def example_heap_def js_defs lru_defs firebase_defs)

section \<open>Facts about the cache and the heap\<close>

lemma map_of_filter_key:
  "map_of (filter (\<lambda>e. fst e \<noteq> k) es) k' = (if k' = k then None else map_of es k')"
  by (induction es) auto

lemma map_of_take_Some:
  "map_of (take m es) k = Some v \<Longrightarrow> map_of es k = Some v"
proof (induction es arbitrary: m)
  case Nil
  then show ?case by simp
next
  case (Cons e es)
  then show ?case
    by (cases m) (auto split: if_splits)
qed

lemma lru_get_value:
  "fst (lru_get c k) = (case lru_peek c k of None \<Rightarrow> JUndefined | Some v \<Rightarrow> v)"
  by (simp add: lru_get_def lru_peek_def split: option.splits)

lemma lru_get_peek: "lru_peek (snd (lru_get c k)) = lru_peek c"
  by (auto simp: lru_get_def lru_peek_def map_of_filter_key fun_eq_iff split: option.splits)

lemma lru_get_max: "max_size (snd (lru_get c k)) = max_size c"
  by (simp add: lru_get_def split: option.splits)

lemma lru_set_peek_same: "lru_peek (lru_set c k v) k = Some v"
  by (cases "max_size c") (simp_all add: lru_set_def lru_peek_def lru_trim_def)

lemma lru_set_peek_other:
  assumes "lru_peek (lru_set c k v) k' = Some w" and "k' \<noteq> k"
  shows "lru_peek c k' = Some w"
proof -
  have "map_of ((k, v) # filter (\<lambda>e. fst e \<noteq> k) (entries c)) k' = Some w"
    using assms(1) by (auto simp: lru_set_def lru_peek_def lru_trim_def split: if_splits dest: map_of_take_Some)
  then show ?thesis
    using assms(2) by (simp add: lru_peek_def map_of_filter_key)
qed

lemma delete_id_props:
  "props_of (delete_id h a) b = (if b = a then without_id (props_of h a) else props_of h b)"
  by (auto simp: delete_id_def props_of_def without_id_def)

lemma lookup_prop_without_id:
  "p \<noteq> ''_id'' \<Longrightarrow> lookup_prop (without_id ps) p = lookup_prop ps p"
  by (simp add: lookup_prop_def without_id_def map_of_filter_key)


lemma write_id_props:
  "props_of (write_id h a v) b =
     (if b = a \<and> a < length h then (''_id'', v) # without_id (props_of h a) else props_of h b)"
  by (auto simp: write_id_def props_of_def without_id_def)

lemma length_delete_id: "length (delete_id h a) = length h"
  by (simp add: delete_id_def)

lemma length_write_id: "length (write_id h a v) = length h"
  by (simp add: write_id_def)

lemma lookup_prop_Cons_other: "p \<noteq> q \<Longrightarrow> lookup_prop ((q, v) # ps) p = lookup_prop ps p"
  by (simp add: lookup_prop_def)

lemma stateID_at_write_id: "stateID_at (write_id h a v) b = stateID_at h b"
  by (simp add: stateID_at_def write_id_props lookup_prop_Cons_other lookup_prop_without_id)

lemma stateID_at_delete_id: "stateID_at (delete_id h a) b = stateID_at h b"
  by (simp add: stateID_at_def delete_id_props lookup_prop_without_id)

section \<open>Facts about \<open>set\<close> and the cache-hit path of \<open>get\<close>\<close>

lemma cache_not_older_stale:
  "cache_not_older s gid state \<Longrightarrow> stale_write (heap s) (fst (lru_get (cache s) gid)) state"
  by (auto simp: cache_not_older_def stale_write_def lru_get_value stateID_at_def
        split: option.splits jsval.splits)

lemma stale_after_fresher:
  assumes "lru_peek c gid = Some (JRef sa)" and "stateID_at h sa = JNum a"
    and "stateID_at h sb = JNum b" and "b \<le> a"
  shows "stale_write h (fst (lru_get c gid)) sb"
  using assms by (simp add: stale_write_def lru_get_value stateID_at_def js_ge_def)

lemma bumped_same_cache_and_store:
  "same_cache_and_store s (s\<lparr>cache := snd (lru_get (cache s) gid)\<rparr>)"
  by (simp add: same_cache_and_store_def lru_get_peek lru_get_max)

lemma SQL_set_stale:
  "stale_write (heap s) (fst (lru_get (cache s) gid)) state \<Longrightarrow>
   SQL_set gid state r s = (Inr (), s\<lparr>cache := snd (lru_get (cache s) gid)\<rparr>)"
  by (simp add: SQL_set_def SQL_set_begin_def case_prod_beta)

lemma Mongo_set_stale:
  "stale_write (heap s) (fst (lru_get (cache s) gid)) state \<Longrightarrow>
   Mongo_set gid state r s = (Inr (), s\<lparr>cache := snd (lru_get (cache s) gid)\<rparr>)"
  by (simp add: Mongo_set_def Mongo_set_begin_def case_prod_beta)

lemma Firebase_set_stale:
  "stale_write (heap s) (fst (lru_get (cache s) gid)) state \<Longrightarrow>
   Firebase_set gid state r s = (Inr (), s\<lparr>cache := snd (lru_get (cache s) gid)\<rparr>)"
  by (simp add: Firebase_set_def Firebase_set_begin_def case_prod_beta)

lemma SQL_set_fresh:
  "\<not> stale_write (heap s) (fst (lru_get (cache s) gid)) state \<Longrightarrow>
   snd (SQL_set gid state r s) =
     s\<lparr>heap := delete_id (heap s) state,
       cache := lru_set (snd (lru_get (cache s) gid)) gid (JRef state),
       store := (case r of
                   IoOk \<Rightarrow> sql_upsert gid (without_id (props_of (heap s) state)) (store s)
                 | IoFail \<Rightarrow> store s)\<rparr>"
  by (cases r) (simp_all add: SQL_set_def SQL_set_begin_def Let_def delete_id_props case_prod_beta)

lemma Mongo_set_fresh:
  "\<not> stale_write (heap s) (fst (lru_get (cache s) gid)) state \<Longrightarrow> connected s \<Longrightarrow>
   snd (Mongo_set gid state r s) =
     s\<lparr>heap := write_id (delete_id (heap s) state) state (JNum (next_oid (store s))),
       cache := lru_set (snd (lru_get (cache s) gid)) gid (JRef state),
       store := (case r of
                   IoOk \<Rightarrow> mongo_insert gid
                             ((''_id'', JNum (next_oid (store s))) # without_id (props_of (heap s) state))
                             ((store s)\<lparr>next_oid := next_oid (store s) + 1\<rparr>)
                 | IoFail \<Rightarrow> (store s)\<lparr>next_oid := next_oid (store s) + 1\<rparr>)\<rparr>"
  by (cases r) (simp_all add: Mongo_set_def Mongo_set_begin_def Let_def delete_id_props case_prod_beta)

lemma Firebase_set_fresh:
  "\<not> stale_write (heap s) (fst (lru_get (cache s) gid)) state \<Longrightarrow> connected s \<Longrightarrow>
   snd (Firebase_set gid state r s) =
     s\<lparr>heap := delete_id (heap s) state,
       cache := lru_set (snd (lru_get (cache s) gid)) gid (JRef state),
       store := (case r of
                   IoOk \<Rightarrow> (store s)\<lparr>documents :=
                              (documents (store s))(gid \<mapsto> without_id (props_of (heap s) state))\<rparr>
                 | IoFail \<Rightarrow> store s)\<rparr>"
  by (cases r) (simp_all add: Firebase_set_def Firebase_set_begin_def Let_def delete_id_props case_prod_beta)

lemma SQL_get_hit:
  "lru_peek (cache s) gid = Some v \<Longrightarrow> v \<noteq> JUndefined \<Longrightarrow>
   SQL_get gid r s = (Inr v, s\<lparr>cache := snd (lru_get (cache s) gid)\<rparr>)"
  by (simp add: SQL_get_def SQL_get_begin_def case_prod_beta lru_get_value)

lemma Mongo_get_hit:
  "lru_peek (cache s) gid = Some v \<Longrightarrow> v \<noteq> JUndefined \<Longrightarrow>
   Mongo_get gid r s = (Inr v, s\<lparr>cache := snd (lru_get (cache s) gid)\<rparr>)"
  by (simp add: Mongo_get_def Mongo_get_begin_def case_prod_beta lru_get_value)

lemma Firebase_get_hit:
  "lru_peek (cache s) gid = Some v \<Longrightarrow> v \<noteq> JUndefined \<Longrightarrow>
   Firebase_get gid r s = (Inr v, s\<lparr>cache := snd (lru_get (cache s) gid)\<rparr>)"
  by (simp add: Firebase_get_def Firebase_get_begin_def case_prod_beta lru_get_value)

lemma SQL_out_of_order:
  assumes fresh: "\<not> stale_write (heap s) (fst (lru_get (cache s) gid)) sa"
    and a: "stateID_at (heap s) sa = JNum a" and b: "stateID_at (heap s) sb = JNum b"
    and ba: "b < a"
  shows "fst (SQL_get gid r3 (snd (SQL_set gid sb r2 (snd (SQL_set gid sa r1 s))))) = Inr (JRef sa)
       \<and> stateID_at (heap (snd (SQL_set gid sb r2 (snd (SQL_set gid sa r1 s))))) sa = JNum a"
proof -
  let ?s1 = "snd (SQL_set gid sa r1 s)"
  have h1: "heap ?s1 = delete_id (heap s) sa"
    and c1: "cache ?s1 = lru_set (snd (lru_get (cache s) gid)) gid (JRef sa)"
    by (simp_all add: SQL_set_fresh [OF fresh])
  have p1: "lru_peek (cache ?s1) gid = Some (JRef sa)"
    by (simp add: c1 lru_set_peek_same)
  have st: "stale_write (heap ?s1) (fst (lru_get (cache ?s1) gid)) sb"
    by (rule stale_after_fresher [OF p1, where a = a and b = b])
      (use a b ba in \<open>simp_all add: h1 stateID_at_delete_id\<close>)
  let ?s2 = "snd (SQL_set gid sb r2 ?s1)"
  have s2: "?s2 = ?s1\<lparr>cache := snd (lru_get (cache ?s1) gid)\<rparr>"
    by (simp add: SQL_set_stale [OF st])
  have p2: "lru_peek (cache ?s2) gid = Some (JRef sa)"
    by (simp add: s2 lru_get_peek p1)
  have "fst (SQL_get gid r3 ?s2) = Inr (JRef sa)"
    by (simp add: SQL_get_hit [OF p2])
  moreover have "stateID_at (heap ?s2) sa = JNum a"
    by (simp add: s2 h1 stateID_at_delete_id a)
  ultimately show ?thesis by simp
qed

lemma Mongo_out_of_order:
  assumes fresh: "\<not> stale_write (heap s) (fst (lru_get (cache s) gid)) sa" and cn: "connected s"
    and a: "stateID_at (heap s) sa = JNum a" and b: "stateID_at (heap s) sb = JNum b"
    and ba: "b < a"
  shows "fst (Mongo_get gid r3 (snd (Mongo_set gid sb r2 (snd (Mongo_set gid sa r1 s))))) = Inr (JRef sa)
       \<and> stateID_at (heap (snd (Mongo_set gid sb r2 (snd (Mongo_set gid sa r1 s))))) sa = JNum a"
proof -
  let ?s1 = "snd (Mongo_set gid sa r1 s)"
  have h1: "heap ?s1 = write_id (delete_id (heap s) sa) sa (JNum (next_oid (store s)))"
    and c1: "cache ?s1 = lru_set (snd (lru_get (cache s) gid)) gid (JRef sa)"
    by (simp_all add: Mongo_set_fresh [OF fresh cn])
  have p1: "lru_peek (cache ?s1) gid = Some (JRef sa)"
    by (simp add: c1 lru_set_peek_same)
  have st: "stale_write (heap ?s1) (fst (lru_get (cache ?s1) gid)) sb"
    by (rule stale_after_fresher [OF p1, where a = a and b = b])
      (use a b ba in \<open>simp_all add: h1 stateID_at_delete_id stateID_at_write_id\<close>)
  let ?s2 = "snd (Mongo_set gid sb r2 ?s1)"
  have s2: "?s2 = ?s1\<lparr>cache := snd (lru_get (cache ?s1) gid)\<rparr>"
    by (simp add: Mongo_set_stale [OF st])
  have p2: "lru_peek (cache ?s2) gid = Some (JRef sa)"
    by (simp add: s2 lru_get_peek p1)
  have "fst (Mongo_get gid r3 ?s2) = Inr (JRef sa)"
    by (simp add: Mongo_get_hit [OF p2])
  moreover have "stateID_at (heap ?s2) sa = JNum a"
    by (simp add: s2 h1 stateID_at_delete_id stateID_at_write_id a)
  ultimately show ?thesis by simp
qed

lemma Firebase_out_of_order:
  assumes fresh: "\<not> stale_write (heap s) (fst (lru_get (cache s) gid)) sa" and cn: "connected s"
    and a: "stateID_at (heap s) sa = JNum a" and b: "stateID_at (heap s) sb = JNum b"
    and ba: "b < a"
  shows "fst (Firebase_get gid r3 (snd (Firebase_set gid sb r2 (snd (Firebase_set gid sa r1 s))))) = Inr (JRef sa)
       \<and> stateID_at (heap (snd (Firebase_set gid sb r2 (snd (Firebase_set gid sa r1 s))))) sa = JNum a"
proof -
  let ?s1 = "snd (Firebase_set gid sa r1 s)"
  have h1: "heap ?s1 = delete_id (heap s) sa"
    and c1: "cache ?s1 = lru_set (snd (lru_get (cache s) gid)) gid (JRef sa)"
    by (simp_all add: Firebase_set_fresh [OF fresh cn])
  have p1: "lru_peek (cache ?s1) gid = Some (JRef sa)"
    by (simp add: c1 lru_set_peek_same)
  have st: "stale_write (heap ?s1) (fst (lru_get (cache ?s1) gid)) sb"
    by (rule stale_after_fresher [OF p1, where a = a and b = b])
      (use a b ba in \<open>simp_all add: h1 stateID_at_delete_id\<close>)
  let ?s2 = "snd (Firebase_set gid sb r2 ?s1)"
  have s2: "?s2 = ?s1\<lparr>cache := snd (lru_get (cache ?s1) gid)\<rparr>"
    by (simp add: Firebase_set_stale [OF st])
  have p2: "lru_peek (cache ?s2) gid = Some (JRef sa)"
    by (simp add: s2 lru_get_peek p1)
  have "fst (Firebase_get gid r3 ?s2) = Inr (JRef sa)"
    by (simp add: Firebase_get_hit [OF p2])
  moreover have "stateID_at (heap ?s2) sa = JNum a"
    by (simp add: s2 h1 stateID_at_delete_id a)
  ultimately show ?thesis by simp
qed

section \<open>Stale writes\<close>

text \<open>
  C2. A \<open>set(id, state)\<close> that finds in the cache a state for \<open>id\<close> whose state
  id is \<open>>=\<close> that of \<open>state\<close> returns normally and leaves heap, cache content
  and durable store as they were, in each of the three cache-backed connectors and
  whatever the driver would have answered. Consequently, when a \<open>set\<close> of a state
  with id \<open>a\<close> takes effect and is followed by a \<open>set\<close> of a state with a
  smaller id \<open>b\<close>, the next \<open>get(id)\<close> returns the first state, whose id is
  still \<open>a\<close>.
\<close>

theorem stale_set_is_discarded:
  "(cache_not_older sq gid state \<longrightarrow>
      fst (SQL_set gid state r sq) = Inr ()
      \<and> same_cache_and_store sq (snd (SQL_set gid state r sq)))
 \<and> (cache_not_older mg gid state \<longrightarrow>
      fst (Mongo_set gid state r mg) = Inr ()
      \<and> same_cache_and_store mg (snd (Mongo_set gid state r mg)))
 \<and> (cache_not_older fb gid state \<longrightarrow>
      fst (Firebase_set gid state r fb) = Inr ()
      \<and> same_cache_and_store fb (snd (Firebase_set gid state r fb)))
 \<and> (\<not> stale_write (heap sq) (fst (lru_get (cache sq) gid)) sa
      \<and> stateID_at (heap sq) sa = JNum a \<and> stateID_at (heap sq) sb = JNum b \<and> b < a \<longrightarrow>
      fst (SQL_get gid r3 (snd (SQL_set gid sb r2 (snd (SQL_set gid sa r1 sq))))) = Inr (JRef sa)
      \<and> stateID_at (heap (snd (SQL_set gid sb r2 (snd (SQL_set gid sa r1 sq))))) sa = JNum a)
 \<and> (\<not> stale_write (heap mg) (fst (lru_get (cache mg) gid)) sa \<and> connected mg
      \<and> stateID_at (heap mg) sa = JNum a \<and> stateID_at (heap mg) sb = JNum b \<and> b < a \<longrightarrow>
      fst (Mongo_get gid r3 (snd (Mongo_set gid sb r2 (snd (Mongo_set gid sa r1 mg))))) = Inr (JRef sa)
      \<and> stateID_at (heap (snd (Mongo_set gid sb r2 (snd (Mongo_set gid sa r1 mg))))) sa = JNum a)
 \<and> (\<not> stale_write (heap fb) (fst (lru_get (cache fb) gid)) sa \<and> connected fb
      \<and> stateID_at (heap fb) sa = JNum a \<and> stateID_at (heap fb) sb = JNum b \<and> b < a \<longrightarrow>
      fst (Firebase_get gid r3 (snd (Firebase_set gid sb r2 (snd (Firebase_set gid sa r1 fb))))) = Inr (JRef sa)
      \<and> stateID_at (heap (snd (Firebase_set gid sb r2 (snd (Firebase_set gid sa r1 fb))))) sa = JNum a)"
proof (intro conjI impI)
  assume "cache_not_older sq gid state"
  then have st: "stale_write (heap sq) (fst (lru_get (cache sq) gid)) state"
    by (rule cache_not_older_stale)
  show "fst (SQL_set gid state r sq) = Inr ()"
    by (simp add: SQL_set_stale [OF st])
  show "same_cache_and_store sq (snd (SQL_set gid state r sq))"
    by (simp add: SQL_set_stale [OF st] bumped_same_cache_and_store)
next
  assume "cache_not_older mg gid state"
  then have st: "stale_write (heap mg) (fst (lru_get (cache mg) gid)) state"
    by (rule cache_not_older_stale)
  show "fst (Mongo_set gid state r mg) = Inr ()"
    by (simp add: Mongo_set_stale [OF st])
  show "same_cache_and_store mg (snd (Mongo_set gid state r mg))"
    by (simp add: Mongo_set_stale [OF st] bumped_same_cache_and_store)
next
  assume "cache_not_older fb gid state"
  then have st: "stale_write (heap fb) (fst (lru_get (cache fb) gid)) state"
    by (rule cache_not_older_stale)
  show "fst (Firebase_set gid state r fb) = Inr ()"
    by (simp add: Firebase_set_stale [OF st])
  show "same_cache_and_store fb (snd (Firebase_set gid state r fb))"
    by (simp add: Firebase_set_stale [OF st] bumped_same_cache_and_store)
next
  assume h: "\<not> stale_write (heap sq) (fst (lru_get (cache sq) gid)) sa
      \<and> stateID_at (heap sq) sa = JNum a \<and> stateID_at (heap sq) sb = JNum b \<and> b < a"
  from h SQL_out_of_order [of sq gid sa a sb b r3 r2 r1]
  show "fst (SQL_get gid r3 (snd (SQL_set gid sb r2 (snd (SQL_set gid sa r1 sq))))) = Inr (JRef sa)"
    and "stateID_at (heap (snd (SQL_set gid sb r2 (snd (SQL_set gid sa r1 sq))))) sa = JNum a"
    by simp_all
next
  assume h: "\<not> stale_write (heap mg) (fst (lru_get (cache mg) gid)) sa \<and> connected mg
      \<and> stateID_at (heap mg) sa = JNum a \<and> stateID_at (heap mg) sb = JNum b \<and> b < a"
  from h Mongo_out_of_order [of mg gid sa a sb b r3 r2 r1]
  show "fst (Mongo_get gid r3 (snd (Mongo_set gid sb r2 (snd (Mongo_set gid sa r1 mg))))) = Inr (JRef sa)"
    and "stateID_at (heap (snd (Mongo_set gid sb r2 (snd (Mongo_set gid sa r1 mg))))) sa = JNum a"
    by simp_all
next
  assume h: "\<not> stale_write (heap fb) (fst (lru_get (cache fb) gid)) sa \<and> connected fb
      \<and> stateID_at (heap fb) sa = JNum a \<and> stateID_at (heap fb) sb = JNum b \<and> b < a"
  from h Firebase_out_of_order [of fb gid sa a sb b r3 r2 r1]
  show "fst (Firebase_get gid r3 (snd (Firebase_set gid sb r2 (snd (Firebase_set gid sa r1 fb))))) = Inr (JRef sa)"
    and "stateID_at (heap (snd (Firebase_set gid sb r2 (snd (Firebase_set gid sa r1 fb))))) sa = JNum a"
    by simp_all
qed

theorem stale_set_is_discarded_witness:
  "cache_not_older SQL_example ''gameID'' 1
   \<and> fst (SQL_set ''gameID'' 1 IoOk SQL_example) = Inr ()
   \<and> cache_not_older Mongo_example ''gameID'' 1
   \<and> fst (Mongo_set ''gameID'' 1 IoOk Mongo_example) = Inr ()
   \<and> cache_not_older Firebase_example ''gameID'' 1
   \<and> fst (Firebase_set ''gameID'' 1 IoOk Firebase_example) = Inr ()
   \<and> \<not> stale_write (heap SQL_example) (fst (lru_get (cache SQL_example) ''gameID'')) 2
   \<and> \<not> stale_write (heap Mongo_example) (fst (lru_get (cache Mongo_example) ''gameID'')) 2
   \<and> \<not> stale_write (heap Firebase_example) (fst (lru_get (cache Firebase_example) ''gameID'')) 2
   \<and> stateID_at example_heap 2 = JNum 2 \<and> stateID_at example_heap 1 = JNum 0 \<and> (0::int) < 2
   \<and> stateID_at (heap Mongo_example) 2 = JNum 2 \<and> stateID_at (heap Mongo_example) 1 = JNum 0
   \<and> fst (SQL_get ''gameID'' IoOk
        (snd (SQL_set ''gameID'' 1 IoOk (snd (SQL_set ''gameID'' 2 IoOk SQL_example))))) = Inr (JRef 2)
   \<and> fst (Mongo_get ''gameID'' IoOk
        (snd (Mongo_set ''gameID'' 1 IoOk (snd (Mongo_set ''gameID'' 2 IoOk Mongo_example))))) = Inr (JRef 2)
   \<and> fst (Firebase_get ''gameID'' IoOk
        (snd (Firebase_set ''gameID'' 1 IoOk (snd (Firebase_set ''gameID'' 2 IoOk Firebase_example))))) = Inr (JRef 2)"
proof -
  have older: "cache_not_older SQL_example ''gameID'' 1" "cache_not_older Mongo_example ''gameID'' 1"
    "cache_not_older Firebase_example ''gameID'' 1"
    by (simp_all add: cache_not_older_def SQL_example_eval Mongo_example_eval Firebase_example_eval
        example_heap_def js_defs lru_defs)
  have fresh: "\<not> stale_write (heap SQL_example) (fst (lru_get (cache SQL_example) ''gameID'')) 2"
    "\<not> stale_write (heap Mongo_example) (fst (lru_get (cache Mongo_example) ''gameID'')) 2"
    "\<not> stale_write (heap Firebase_example) (fst (lru_get (cache Firebase_example) ''gameID'')) 2"
    by (simp_all add: SQL_example_eval Mongo_example_eval Firebase_example_eval
        example_heap_def js_defs lru_defs)
  have ids: "stateID_at example_heap 2 = JNum 2" "stateID_at example_heap 1 = JNum 0"
    "stateID_at (heap Mongo_example) 2 = JNum 2" "stateID_at (heap Mongo_example) 1 = JNum 0"
    by (simp_all add: example_heap_def Mongo_example_eval js_defs)
  show ?thesis
    using stale_set_is_discarded [where sq = SQL_example and mg = Mongo_example
        and fb = Firebase_example and gid = "''gameID''" and state = 1 and sa = 2 and sb = 1
        and a = 2 and b = 0 and r = IoOk and ?r1.0 = IoOk and ?r2.0 = IoOk and ?r3.0 = IoOk] older fresh ids
    by (simp add: SQL_example_eval(1) Firebase_example_eval(1,5) Mongo_example_eval(5))
qed

section \<open>The argument of \<open>set\<close> is mutated\<close>




section \<open>\<open>get\<close> of an id that was never set\<close>

text \<open>
  C4. On connectors that have just been created and connected, with empty caches and
  empty stores, \<open>get('gameID')\<close> returns \<open>undefined\<close> from the in-memory and the
  MongoDB connector and the store's value for an absent document (\<open>null\<close> or
  \<open>undefined\<close>) from the Firebase connector. In the SQL connector it throws a
  TypeError: the cache misses and the call \<open>this.db.findOne\<close> throws; and the rest
  of the function, given the \<open>null\<close> of a query that finds no row, would throw at
  \<open>return doc.ctx\<close>.
\<close>

theorem get_of_unknown_id:
  "fst (SQL_get ''gameID'' IoOk
          (snd (SQL_connect (Resolved JUndefined) (SQL_new None [] sql_empty)))) = Inl TypeError
   \<and> fst (SQL_get_resume ''gameID'' JNull
          (snd (SQL_connect (Resolved JUndefined) (SQL_new None [] sql_empty)))) = Inl TypeError
   \<and> fst (Mongo_get ''gameID'' IoOk
          (snd (Mongo_connect (Resolved ()) (Mongo_new None [] mongo_empty)))) = Inr JUndefined
   \<and> fst (Firebase_get ''gameID'' IoOk
          (snd (Firebase_connect (Resolved ()) (Firebase_new None [] (firebase_empty RTD JNull))))) = Inr JNull
   \<and> fst (Firebase_get ''gameID'' IoOk
          (snd (Firebase_connect (Resolved ()) (Firebase_new None [] (firebase_empty Firestore JUndefined)))))
       = Inr JUndefined
   \<and> InMemory_get ''gameID'' (InMemory_connect InMemory_new) = JUndefined"
  by (simp add: js_defs lru_defs sql_defs mongo_defs firebase_defs
      InMemory_get_def InMemory_connect_def InMemory_new_def)

section \<open>\<open>has\<close>\<close>

lemma SQL_has_cache:
  "lru_peek (cache (snd (SQL_has gid r s))) = lru_peek (cache s)
   \<and> max_size (cache (snd (SQL_has gid r s))) = max_size (cache s)
   \<and> store (snd (SQL_has gid r s)) = store s"
  by (simp add: SQL_has_def case_prod_beta lru_get_peek lru_get_max)

lemma Mongo_has_cache:
  "lru_peek (cache (snd (Mongo_has gid r s))) = lru_peek (cache s)
   \<and> max_size (cache (snd (Mongo_has gid r s))) = max_size (cache s)
   \<and> store (snd (Mongo_has gid r s)) = store s"
  by (cases r) (simp_all add: Mongo_has_def Mongo_find_first_def case_prod_beta lru_get_peek lru_get_max
      split: list.splits)

lemma Firebase_has_cache:
  "lru_peek (cache (snd (Firebase_has gid r s))) = lru_peek (cache s)
   \<and> max_size (cache (snd (Firebase_has gid r s))) = max_size (cache s)
   \<and> store (snd (Firebase_has gid r s)) = store s"
  by (cases r) (simp_all add: Firebase_has_def case_prod_beta lru_get_peek lru_get_max)

lemma cache_hit_value: "cache_hit c gid \<longleftrightarrow> fst (lru_get c gid) \<noteq> JUndefined"
  by (simp add: cache_hit_def lru_get_value split: option.splits)

text \<open>
  What holds of \<open>has\<close>. In each cache-backed connector it leaves the content of the
  cache and the store as they were (\<open>cache.get\<close> marks an entry it finds as recently
  used, nothing else), and on a cache hit it returns \<open>true\<close> without asking the
  store. On a cache miss the MongoDB and the Firebase connector (connected, the driver
  answering) return whether the store holds a document for the id, hence \<open>false\<close>
  for every id of a new connector. The in-memory connector returns whether the key is in
  its map. On a cache miss the SQL connector throws a TypeError, whatever the table holds.
\<close>

lemma has_in_the_connectors:
  "lru_peek (cache (snd (SQL_has gid r sq))) = lru_peek (cache sq)
   \<and> lru_peek (cache (snd (Mongo_has gid r mg))) = lru_peek (cache mg)
   \<and> lru_peek (cache (snd (Firebase_has gid r fb))) = lru_peek (cache fb)
   \<and> store (snd (SQL_has gid r sq)) = store sq
   \<and> store (snd (Mongo_has gid r mg)) = store mg
   \<and> store (snd (Firebase_has gid r fb)) = store fb
   \<and> (cache_hit (cache sq) gid \<longrightarrow> fst (SQL_has gid r sq) = Inr True)
   \<and> (cache_hit (cache mg) gid \<longrightarrow> fst (Mongo_has gid r mg) = Inr True)
   \<and> (cache_hit (cache fb) gid \<longrightarrow> fst (Firebase_has gid r fb) = Inr True)
   \<and> (\<not> cache_hit (cache sq) gid \<longrightarrow> fst (SQL_has gid r sq) = Inl TypeError)
   \<and> (\<not> cache_hit (cache mg) gid \<and> connected mg \<longrightarrow>
        fst (Mongo_has gid IoOk mg) = Inr (collections (store mg) gid \<noteq> []))
   \<and> (\<not> cache_hit (cache fb) gid \<and> connected fb \<longrightarrow>
        fst (Firebase_has gid IoOk fb) = Inr (documents (store fb) gid \<noteq> None))
   \<and> fst (Mongo_has gid IoOk (snd (Mongo_connect (Resolved ()) (Mongo_new n h mongo_empty)))) = Inr False
   \<and> fst (Firebase_has gid IoOk
        (snd (Firebase_connect (Resolved ()) (Firebase_new n h (firebase_empty e a))))) = Inr False
   \<and> \<not> InMemory_has gid InMemory_new
   \<and> InMemory_has gid (InMemory_set gid v m)
   \<and> (gid' \<noteq> gid \<longrightarrow> InMemory_has gid' (InMemory_set gid v m) = InMemory_has gid' m)"
proof (intro conjI impI)
  show "lru_peek (cache (snd (SQL_has gid r sq))) = lru_peek (cache sq)"
    and "store (snd (SQL_has gid r sq)) = store sq"
    by (simp_all add: SQL_has_cache)
  show "lru_peek (cache (snd (Mongo_has gid r mg))) = lru_peek (cache mg)"
    and "store (snd (Mongo_has gid r mg)) = store mg"
    by (simp_all add: Mongo_has_cache)
  show "lru_peek (cache (snd (Firebase_has gid r fb))) = lru_peek (cache fb)"
    and "store (snd (Firebase_has gid r fb)) = store fb"
    by (simp_all add: Firebase_has_cache)
next
  assume "cache_hit (cache sq) gid"
  then show "fst (SQL_has gid r sq) = Inr True"
    by (simp add: cache_hit_value SQL_has_def case_prod_beta)
next
  assume "cache_hit (cache mg) gid"
  then show "fst (Mongo_has gid r mg) = Inr True"
    by (simp add: cache_hit_value Mongo_has_def case_prod_beta)
next
  assume "cache_hit (cache fb) gid"
  then show "fst (Firebase_has gid r fb) = Inr True"
    by (simp add: cache_hit_value Firebase_has_def case_prod_beta)
next
  assume "\<not> cache_hit (cache sq) gid"
  then show "fst (SQL_has gid r sq) = Inl TypeError"
    by (simp add: cache_hit_value SQL_has_def case_prod_beta)
next
  assume "\<not> cache_hit (cache mg) gid \<and> connected mg"
  then show "fst (Mongo_has gid IoOk mg) = Inr (collections (store mg) gid \<noteq> [])"
    by (cases "rev (collections (store mg) gid)")
      (auto simp: cache_hit_value Mongo_has_def Mongo_find_first_def case_prod_beta)
next
  assume "\<not> cache_hit (cache fb) gid \<and> connected fb"
  then show "fst (Firebase_has gid IoOk fb) = Inr (documents (store fb) gid \<noteq> None)"
    by (simp add: cache_hit_value Firebase_has_def case_prod_beta)
next
  show "fst (Mongo_has gid IoOk (snd (Mongo_connect (Resolved ()) (Mongo_new n h mongo_empty)))) = Inr False"
    by (simp add: js_defs lru_defs mongo_defs)
  show "fst (Firebase_has gid IoOk
        (snd (Firebase_connect (Resolved ()) (Firebase_new n h (firebase_empty e a))))) = Inr False"
    by (simp add: js_defs lru_defs firebase_defs)
  show "\<not> InMemory_has gid InMemory_new"
    by (simp add: InMemory_has_def InMemory_new_def)
  show "InMemory_has gid (InMemory_set gid v m)"
    by (simp add: InMemory_has_def InMemory_set_def)
next
  assume "gid' \<noteq> gid"
  then show "InMemory_has gid' (InMemory_set gid v m) = InMemory_has gid' m"
    by (simp add: InMemory_has_def InMemory_set_def)
qed

text \<open>
  C7. \<open>has(id)\<close> is to return, on a cache miss, whether the durable store holds a
  document for \<open>id\<close>, and \<open>false\<close> for an id never set. The SQL connector does
  not: after \<open>set('gameID', state)\<close> has written the row and the cache has been
  emptied, \<open>has('gameID')\<close> throws a TypeError instead of returning \<open>true\<close>, and
  on a new connector \<open>has('gameID')\<close> throws instead of returning \<open>false\<close>,
  because \<open>this.db.findOne\<close> is called on the connection, which has no such
  method (the table is \<open>this.game\<close>). At the same inputs the MongoDB and the Firebase
  connector return \<open>true\<close> and \<open>false\<close>.
\<close>

theorem SQL_has_throws_on_cache_miss:
  "map_of (rows (store (cold SQL_example))) ''gameID'' = Some [(''_stateID'', JNum 1)]
   \<and> \<not> cache_hit (cache (cold SQL_example)) ''gameID''
   \<and> fst (SQL_has ''gameID'' IoOk (cold SQL_example)) = Inl TypeError
   \<and> fst (SQL_has ''gameID'' IoOk
        (snd (SQL_connect (Resolved JUndefined) (SQL_new None [] sql_empty)))) = Inl TypeError
   \<and> fst (Mongo_has ''gameID'' IoOk (cold Mongo_example)) = Inr True
   \<and> fst (Firebase_has ''gameID'' IoOk (cold Firebase_example)) = Inr True
   \<and> fst (Mongo_has ''gameID'' IoOk
        (snd (Mongo_connect (Resolved ()) (Mongo_new None [] mongo_empty)))) = Inr False
   \<and> fst (Firebase_has ''gameID'' IoOk
        (snd (Firebase_connect (Resolved ()) (Firebase_new None [] (firebase_empty RTD JNull)))))
       = Inr False"
  by (simp add: cold_def cache_hit_def SQL_example_eval Mongo_example_eval Firebase_example_eval
      js_defs lru_defs sql_defs mongo_defs firebase_defs)

section \<open>Failures of \<open>connect\<close> and of the store\<close>




section \<open>What \<open>set\<close> persists\<close>

lemma map_of_replace_row:
  "map_of (map (\<lambda>r. if fst r = gid then (gid, p) else r) rs) k =
     (if k = gid then (case map_of rs gid of None \<Rightarrow> None | Some old \<Rightarrow> Some p) else map_of rs k)"
  by (induction rs) (auto split: option.splits)

lemma sql_upsert_lookup: "map_of (rows (sql_upsert gid p st)) = (map_of (rows st))(gid \<mapsto> p)"
proof (cases "map_of (rows st) gid")
  case None
  then show ?thesis
    by (auto simp: sql_upsert_def fun_eq_iff map_add_def split: option.splits)
next
  case (Some old)
  then show ?thesis
    by (auto simp: sql_upsert_def fun_eq_iff map_of_replace_row)
qed

lemma sql_upsert_keys:
  "map fst (rows (sql_upsert gid p st)) =
     (case map_of (rows st) gid of None \<Rightarrow> map fst (rows st) @ [gid] | Some old \<Rightarrow> map fst (rows st))"
proof (cases "map_of (rows st) gid")
  case None
  then show ?thesis by (simp add: sql_upsert_def)
next
  case (Some old)
  have "map fst (map (\<lambda>r. if fst r = gid then (gid, p) else r) rs) = map fst rs" for rs
    by (induction rs) auto
  with Some show ?thesis by (simp add: sql_upsert_def)
qed

lemma sql_upsert_distinct:
  "distinct (map fst (rows (sql_upsert gid p st)))" if "distinct (map fst (rows st))"
proof (cases "map_of (rows st) gid")
  case None
  then have "gid \<notin> set (map fst (rows st))"
    by (simp add: map_of_eq_None_iff)
  with None show ?thesis
    using that by (simp add: sql_upsert_keys)
next
  case (Some old)
  then show ?thesis
    using that by (simp add: sql_upsert_keys)
qed

lemma replace_row_fixed:
  "\<forall>r \<in> set rs. fst r = gid \<longrightarrow> r = (gid, p) \<Longrightarrow>
   map (\<lambda>r. if fst r = gid then (gid, p) else r) rs = rs"
  by (induction rs) auto

lemma sql_upsert_rows_of_id:
  "distinct (map fst (rows st)) \<Longrightarrow> r \<in> set (rows (sql_upsert gid p st)) \<Longrightarrow> fst r = gid \<Longrightarrow>
   r = (gid, p)"
  by (cases "map_of (rows st) gid")
    (auto simp: sql_upsert_def map_of_eq_None_iff split: if_splits)

lemma sql_upsert_idem:
  assumes "distinct (map fst (rows st))"
  shows "sql_upsert gid p (sql_upsert gid p st) = sql_upsert gid p st"
proof -
  have "map_of (rows (sql_upsert gid p st)) gid = Some p"
    by (simp add: sql_upsert_lookup)
  moreover have "\<forall>r \<in> set (rows (sql_upsert gid p st)). fst r = gid \<longrightarrow> r = (gid, p)"
    using sql_upsert_rows_of_id [OF assms] by blast
  ultimately show ?thesis
    by (simp add: sql_upsert_def [of gid p "sql_upsert gid p st"] replace_row_fixed)
qed

lemma SQL_set_store:
  "store (snd (SQL_set gid state r s)) = store s
   \<or> store (snd (SQL_set gid state r s)) = sql_upsert gid (without_id (props_of (heap s) state)) (store s)"
proof (cases "stale_write (heap s) (fst (lru_get (cache s) gid)) state")
  case True
  then show ?thesis by (simp add: SQL_set_stale)
next
  case False
  then show ?thesis by (cases r) (simp_all add: SQL_set_fresh)
qed

lemma SQL_sets_distinct:
  "distinct (map fst (rows (store s))) \<Longrightarrow> distinct (map fst (rows (store (SQL_sets calls s))))"
proof (induction calls arbitrary: s)
  case Nil
  then show ?case by simp
next
  case (Cons call calls)
  obtain gid state r where call: "call = (gid, state, r)"
    by (cases call)
  have "distinct (map fst (rows (store (snd (SQL_set gid state r s)))))"
    using SQL_set_store [of gid state r s] Cons.prems by (auto simp: sql_upsert_distinct)
  then show ?case
    using Cons.IH by (simp add: call)
qed

text \<open>
  C5, as claimed, fails: the MongoDB connector inserts, it does not upsert. After a
  \<open>set\<close> of the state with id 1 and a \<open>set\<close> of the state with id 2 under the
  same game id, the game's collection holds two documents.
\<close>

theorem Mongo_set_inserts_counterexample:
  "collections (store (snd (Mongo_set ''gameID'' 2 IoOk Mongo_example))) ''gameID''
     = [[(''_id'', JNum 1), (''_stateID'', JNum 2)], [(''_id'', JNum 0), (''_stateID'', JNum 1)]]"
  by (simp add: Mongo_set_def Mongo_set_begin_def mongo_insert_def Mongo_example_eval
      example_heap_def js_defs lru_defs)

text \<open>
  C5, amended. A \<open>set\<close> that passes the staleness guard, on a connected connector
  whose driver succeeds, persists the state without its \<open>_id\<close>. The SQL connector
  does so by an upsert keyed by the game id: the row of that id is replaced or a row is
  added, so the table never holds two rows with one id, from a new connector on and
  through any sequence of \<open>set\<close> calls, and upserting the same document again leaves
  the table as it is. The Firebase connector replaces the document at the game's path.
  The MongoDB connector inserts: each such \<open>set\<close> adds one document, under a new
  \<open>_id\<close>, to the game's collection and keeps the older ones.
\<close>

theorem set_persists:
  "(\<not> stale_write (heap sq) (fst (lru_get (cache sq) gid)) state \<longrightarrow>
      store (snd (SQL_set gid state IoOk sq))
        = sql_upsert gid (without_id (props_of (heap sq) state)) (store sq))
   \<and> map_of (rows (sql_upsert gid p st)) = (map_of (rows st))(gid \<mapsto> p)
   \<and> (distinct (map fst (rows st)) \<longrightarrow>
        distinct (map fst (rows (sql_upsert gid p st)))
        \<and> sql_upsert gid p (sql_upsert gid p st) = sql_upsert gid p st)
   \<and> (distinct (map fst (rows (store sq))) \<longrightarrow>
        distinct (map fst (rows (store (SQL_sets calls sq)))))
   \<and> distinct (map fst (rows (store (SQL_sets calls (SQL_new n h sql_empty)))))
   \<and> (\<not> stale_write (heap fb) (fst (lru_get (cache fb) gid)) state \<and> connected fb \<longrightarrow>
        documents (store (snd (Firebase_set gid state IoOk fb)))
          = (documents (store fb))(gid \<mapsto> without_id (props_of (heap fb) state)))
   \<and> (\<not> stale_write (heap mg) (fst (lru_get (cache mg) gid)) state \<and> connected mg \<longrightarrow>
        collections (store (snd (Mongo_set gid state IoOk mg))) gid
          = ((''_id'', JNum (next_oid (store mg))) # without_id (props_of (heap mg) state))
            # collections (store mg) gid
        \<and> next_oid (store (snd (Mongo_set gid state IoOk mg))) = next_oid (store mg) + 1)"
proof (intro conjI impI)
  assume "\<not> stale_write (heap sq) (fst (lru_get (cache sq) gid)) state"
  then show "store (snd (SQL_set gid state IoOk sq))
        = sql_upsert gid (without_id (props_of (heap sq) state)) (store sq)"
    by (simp add: SQL_set_fresh)
next
  show "map_of (rows (sql_upsert gid p st)) = (map_of (rows st))(gid \<mapsto> p)"
    by (rule sql_upsert_lookup)
next
  assume d: "distinct (map fst (rows st))"
  show "distinct (map fst (rows (sql_upsert gid p st)))"
    by (rule sql_upsert_distinct [OF d])
  show "sql_upsert gid p (sql_upsert gid p st) = sql_upsert gid p st"
    by (rule sql_upsert_idem [OF d])
next
  assume "distinct (map fst (rows (store sq)))"
  then show "distinct (map fst (rows (store (SQL_sets calls sq))))"
    by (rule SQL_sets_distinct)
next
  show "distinct (map fst (rows (store (SQL_sets calls (SQL_new n h sql_empty)))))"
    by (rule SQL_sets_distinct) (simp add: SQL_new_def sql_empty_def)
next
  assume "\<not> stale_write (heap fb) (fst (lru_get (cache fb) gid)) state \<and> connected fb"
  then show "documents (store (snd (Firebase_set gid state IoOk fb)))
          = (documents (store fb))(gid \<mapsto> without_id (props_of (heap fb) state))"
    by (simp add: Firebase_set_fresh)
next
  assume h: "\<not> stale_write (heap mg) (fst (lru_get (cache mg) gid)) state \<and> connected mg"
  then show "collections (store (snd (Mongo_set gid state IoOk mg))) gid
          = ((''_id'', JNum (next_oid (store mg))) # without_id (props_of (heap mg) state))
            # collections (store mg) gid"
    by (simp add: Mongo_set_fresh mongo_insert_def)
  from h show "next_oid (store (snd (Mongo_set gid state IoOk mg))) = next_oid (store mg) + 1"
    by (simp add: Mongo_set_fresh mongo_insert_def)
qed

theorem set_persists_witness:
  "\<not> stale_write (heap SQL_example) (fst (lru_get (cache SQL_example) ''gameID'')) 2
   \<and> distinct (map fst (rows (store SQL_example)))
   \<and> \<not> stale_write (heap Firebase_example) (fst (lru_get (cache Firebase_example) ''gameID'')) 2
   \<and> connected Firebase_example
   \<and> \<not> stale_write (heap Mongo_example) (fst (lru_get (cache Mongo_example) ''gameID'')) 2
   \<and> connected Mongo_example
   \<and> rows (store (snd (SQL_set ''gameID'' 2 IoOk SQL_example))) = [(''gameID'', [(''_stateID'', JNum 2)])]
   \<and> rows (sql_upsert ''gameID'' [(''_stateID'', JNum 2)]
        (sql_upsert ''gameID'' [(''_stateID'', JNum 2)] (store SQL_example)))
       = [(''gameID'', [(''_stateID'', JNum 2)])]
   \<and> distinct (map fst (rows (store (SQL_sets [(''gameID'', 2, IoOk), (''another'', 1, IoOk)] SQL_example))))
   \<and> documents (store (snd (Firebase_set ''gameID'' 2 IoOk Firebase_example))) ''gameID''
       = Some [(''_stateID'', JNum 2)]
   \<and> length (collections (store (snd (Mongo_set ''gameID'' 2 IoOk Mongo_example))) ''gameID'') = 2"
proof -
  have hyps: "\<not> stale_write (heap SQL_example) (fst (lru_get (cache SQL_example) ''gameID'')) 2"
    "distinct (map fst (rows (store SQL_example)))"
    "\<not> stale_write (heap Firebase_example) (fst (lru_get (cache Firebase_example) ''gameID'')) 2"
    "connected Firebase_example"
    "\<not> stale_write (heap Mongo_example) (fst (lru_get (cache Mongo_example) ''gameID'')) 2"
    "connected Mongo_example"
    by (simp_all add: SQL_example_eval Mongo_example_eval Firebase_example_eval
        example_heap_def js_defs lru_defs)
  have vals: "without_id (props_of example_heap 2) = [(''_stateID'', JNum 2)]"
    "rows (sql_upsert ''gameID'' [(''_stateID'', JNum 2)] (store SQL_example))
       = [(''gameID'', [(''_stateID'', JNum 2)])]"
    by (simp_all add: example_heap_def js_defs sql_upsert_def SQL_example_eval)
  show ?thesis
    using set_persists [where sq = SQL_example and fb = Firebase_example and mg = Mongo_example
        and gid = "''gameID''" and state = 2 and st = "store SQL_example"
        and p = "[(''_stateID'', JNum 2)]"
        and calls = "[(''gameID'', 2, IoOk), (''another'', 1, IoOk)]"]
      hyps vals
    by (simp add: SQL_example_eval Mongo_example_eval Firebase_example_eval)
qed

section \<open>\<open>get\<close> on a cold cache\<close>

lemma lru_get_absent: "lru_peek c k = None \<Longrightarrow> lru_get c k = (JUndefined, c)"
  by (simp add: lru_get_def lru_peek_def)

lemma lru_peek_reset: "lru_peek (lru_reset c) k = None"
  by (simp add: lru_peek_def lru_reset_def)

lemma Mongo_get_cold:
  assumes miss: "lru_peek (cache s) gid = None" and cn: "connected s"
    and doc: "collections (store s) gid = doc # older"
    and sid: "lookup_prop doc ''_stateID'' = JNum n" and n: "0 \<le> n"
  shows "Mongo_get gid IoOk s =
           (Inr (JRef (length (heap s))),
            s\<lparr>heap := heap s @ [doc], cache := lru_set (cache s) gid (JRef (length (heap s)))\<rparr>)"
  using assms
  by (simp add: Mongo_get_def Mongo_get_begin_def Mongo_find_latest_def Mongo_get_resume_def
      lru_get_absent alloc_def array_first_def props_of_def js_ge_def)

lemma Firebase_get_cold:
  assumes miss: "lru_peek (cache s) gid = None" and cn: "connected s"
    and doc: "documents (store s) gid = Some doc"
    and sid: "lookup_prop doc ''_stateID'' = JNum n" and n: "0 \<le> n"
  shows "Firebase_get gid IoOk s =
           (Inr (JRef (length (heap s))),
            s\<lparr>heap := heap s @ [doc], cache := lru_set (cache s) gid (JRef (length (heap s)))\<rparr>)"
  using assms
  by (simp add: Firebase_get_def Firebase_get_begin_def Firebase_read_def Firebase_get_resume_def
      lru_get_absent alloc_def props_of_def js_ge_def)

lemma props_of_append_new: "length h = l \<Longrightarrow> props_of (h @ [ps]) l = ps"
  by (auto simp: props_of_def)

lemma Mongo_round_trip:
  assumes fresh: "\<not> stale_write (heap s) (fst (lru_get (cache s) gid)) state" and cn: "connected s"
    and sid: "stateID_at (heap s) state = JNum n" and n: "0 \<le> n"
  defines "s2 \<equiv> cold (snd (Mongo_set gid state IoOk s))"
  defines "doc \<equiv> (''_id'', JNum (next_oid (store s))) # without_id (props_of (heap s) state)"
  shows "Mongo_get gid IoOk s2 =
           (Inr (JRef (length (heap s))),
            s2\<lparr>heap := heap s2 @ [doc], cache := lru_set (cache s2) gid (JRef (length (heap s)))\<rparr>)"
proof -
  have s2: "s2 = s\<lparr>heap := write_id (delete_id (heap s) state) state (JNum (next_oid (store s))),
       cache := lru_reset (lru_set (snd (lru_get (cache s) gid)) gid (JRef state)),
       store := mongo_insert gid doc ((store s)\<lparr>next_oid := next_oid (store s) + 1\<rparr>)\<rparr>"
    by (simp add: s2_def doc_def cold_def Mongo_set_fresh [OF fresh cn])
  have "lru_peek (cache s2) gid = None"
    by (simp add: s2 lru_peek_reset)
  moreover have "connected s2"
    by (simp add: s2 cn)
  moreover have "collections (store s2) gid = doc # collections (store s) gid"
    by (simp add: s2 mongo_insert_def)
  moreover have "lookup_prop doc ''_stateID'' = JNum n"
    using sid by (simp add: doc_def lookup_prop_Cons_other lookup_prop_without_id stateID_at_def)
  ultimately have "Mongo_get gid IoOk s2 =
           (Inr (JRef (length (heap s2))),
            s2\<lparr>heap := heap s2 @ [doc], cache := lru_set (cache s2) gid (JRef (length (heap s2)))\<rparr>)"
    using n by (rule Mongo_get_cold)
  moreover have "length (heap s2) = length (heap s)"
    by (simp add: s2 length_delete_id length_write_id)
  ultimately show ?thesis by simp
qed

lemma Firebase_round_trip:
  assumes fresh: "\<not> stale_write (heap s) (fst (lru_get (cache s) gid)) state" and cn: "connected s"
    and sid: "stateID_at (heap s) state = JNum n" and n: "0 \<le> n"
  defines "s2 \<equiv> cold (snd (Firebase_set gid state IoOk s))"
  defines "doc \<equiv> without_id (props_of (heap s) state)"
  shows "Firebase_get gid IoOk s2 =
           (Inr (JRef (length (heap s))),
            s2\<lparr>heap := heap s2 @ [doc], cache := lru_set (cache s2) gid (JRef (length (heap s)))\<rparr>)"
proof -
  have s2: "s2 = s\<lparr>heap := delete_id (heap s) state,
       cache := lru_reset (lru_set (snd (lru_get (cache s) gid)) gid (JRef state)),
       store := (store s)\<lparr>documents := (documents (store s))(gid \<mapsto> doc)\<rparr>\<rparr>"
    by (simp add: s2_def doc_def cold_def Firebase_set_fresh [OF fresh cn])
  have "lru_peek (cache s2) gid = None"
    by (simp add: s2 lru_peek_reset)
  moreover have "connected s2"
    by (simp add: s2 cn)
  moreover have "documents (store s2) gid = Some doc"
    by (simp add: s2)
  moreover have "lookup_prop doc ''_stateID'' = JNum n"
    using sid by (simp add: doc_def lookup_prop_without_id stateID_at_def)
  ultimately have "Firebase_get gid IoOk s2 =
           (Inr (JRef (length (heap s2))),
            s2\<lparr>heap := heap s2 @ [doc], cache := lru_set (cache s2) gid (JRef (length (heap s2)))\<rparr>)"
    using n by (rule Firebase_get_cold)
  moreover have "length (heap s2) = length (heap s)"
    by (simp add: s2 length_delete_id)
  ultimately show ?thesis by simp
qed

text \<open>
  C8, as claimed, fails. A state without \<open>_stateID\<close>, and a state whose
  \<open>_stateID\<close> is \<open>-1\<close>, are written by \<open>set\<close> of the MongoDB connector; the
  \<open>get\<close> on the emptied cache returns the document as a new object but leaves the
  cache empty, because the re-check compares the document's state id with 0. The
  following \<open>get\<close> issues the query again, and fails when the store does.
\<close>

theorem cold_get_counterexample:
  "fst (Mongo_get ''gameID'' IoOk (cold (snd (Mongo_set ''gameID'' 0 IoOk Mongo_odd)))) = Inr (JRef 2)
   \<and> lru_peek (cache (snd (Mongo_get ''gameID'' IoOk
        (cold (snd (Mongo_set ''gameID'' 0 IoOk Mongo_odd)))))) ''gameID'' = None
   \<and> fst (Mongo_get_begin ''gameID'' (snd (Mongo_get ''gameID'' IoOk
        (cold (snd (Mongo_set ''gameID'' 0 IoOk Mongo_odd)))))) = Inr None
   \<and> fst (Mongo_get ''gameID'' IoFail (snd (Mongo_get ''gameID'' IoOk
        (cold (snd (Mongo_set ''gameID'' 0 IoOk Mongo_odd)))))) = Inl StoreError
   \<and> fst (Mongo_get ''gameID'' IoOk (cold (snd (Mongo_set ''gameID'' 1 IoOk Mongo_odd)))) = Inr (JRef 2)
   \<and> lru_peek (cache (snd (Mongo_get ''gameID'' IoOk
        (cold (snd (Mongo_set ''gameID'' 1 IoOk Mongo_odd)))))) ''gameID'' = None
   \<and> fst (Mongo_get ''gameID'' IoFail (snd (Mongo_get ''gameID'' IoOk
        (cold (snd (Mongo_set ''gameID'' 1 IoOk Mongo_odd)))))) = Inl StoreError"
  by (simp add: Mongo_odd_def odd_heap_def cold_def js_defs lru_defs mongo_defs)

text \<open>
  C8, amended. In the MongoDB and the Firebase connector, for a state whose
  \<open>_stateID\<close> is a non-negative integer and a \<open>set(id, state)\<close> that took effect
  and was persisted: a \<open>get(id)\<close> on the emptied cache returns a new object that has
  the properties of the state without \<open>_id\<close> (in MongoDB preceded by the \<open>_id\<close>
  the store assigned), and puts that object into the cache; the \<open>get(id)\<close> that
  follows returns the same object from its synchronous part, before any query is issued,
  and so whatever the driver would answer.
\<close>

theorem cold_get_round_trip:
  "(\<not> stale_write (heap mg) (fst (lru_get (cache mg) gid)) state \<and> connected mg
      \<and> stateID_at (heap mg) state = JNum n \<and> 0 \<le> n \<longrightarrow>
      fst (Mongo_get gid IoOk (cold (snd (Mongo_set gid state IoOk mg)))) = Inr (JRef (length (heap mg)))
      \<and> props_of (heap (snd (Mongo_get gid IoOk (cold (snd (Mongo_set gid state IoOk mg))))))
           (length (heap mg))
          = (''_id'', JNum (next_oid (store mg))) # without_id (props_of (heap mg) state)
      \<and> fst (Mongo_get_begin gid (snd (Mongo_get gid IoOk (cold (snd (Mongo_set gid state IoOk mg))))))
          = Inr (Some (JRef (length (heap mg))))
      \<and> fst (Mongo_get gid r (snd (Mongo_get gid IoOk (cold (snd (Mongo_set gid state IoOk mg))))))
          = Inr (JRef (length (heap mg))))
   \<and> (\<not> stale_write (heap fb) (fst (lru_get (cache fb) gid)) state \<and> connected fb
      \<and> stateID_at (heap fb) state = JNum n \<and> 0 \<le> n \<longrightarrow>
      fst (Firebase_get gid IoOk (cold (snd (Firebase_set gid state IoOk fb))))
          = Inr (JRef (length (heap fb)))
      \<and> props_of (heap (snd (Firebase_get gid IoOk (cold (snd (Firebase_set gid state IoOk fb))))))
           (length (heap fb))
          = without_id (props_of (heap fb) state)
      \<and> fst (Firebase_get_begin gid
               (snd (Firebase_get gid IoOk (cold (snd (Firebase_set gid state IoOk fb))))))
          = Inr (Some (JRef (length (heap fb))))
      \<and> fst (Firebase_get gid r (snd (Firebase_get gid IoOk (cold (snd (Firebase_set gid state IoOk fb))))))
          = Inr (JRef (length (heap fb))))"
proof (intro conjI impI)
  assume h: "\<not> stale_write (heap mg) (fst (lru_get (cache mg) gid)) state \<and> connected mg
      \<and> stateID_at (heap mg) state = JNum n \<and> 0 \<le> n"
  let ?s2 = "cold (snd (Mongo_set gid state IoOk mg))"
  let ?s3 = "snd (Mongo_get gid IoOk ?s2)"
  have g: "Mongo_get gid IoOk ?s2 =
      (Inr (JRef (length (heap mg))),
       ?s2\<lparr>heap := heap ?s2 @ [(''_id'', JNum (next_oid (store mg))) # without_id (props_of (heap mg) state)],
            cache := lru_set (cache ?s2) gid (JRef (length (heap mg)))\<rparr>)"
    using h Mongo_round_trip [of mg gid state n] by simp
  have len: "length (heap ?s2) = length (heap mg)"
    using h by (simp add: cold_def Mongo_set_fresh length_delete_id length_write_id)
  have p3: "lru_peek (cache ?s3) gid = Some (JRef (length (heap mg)))"
    by (simp add: g lru_set_peek_same)
  show "fst (Mongo_get gid IoOk ?s2) = Inr (JRef (length (heap mg)))"
    by (simp add: g)
  show "props_of (heap ?s3) (length (heap mg))
          = (''_id'', JNum (next_oid (store mg))) # without_id (props_of (heap mg) state)"
    by (simp add: g props_of_append_new [OF len])
  show "fst (Mongo_get_begin gid ?s3) = Inr (Some (JRef (length (heap mg))))"
    using p3 by (simp add: Mongo_get_begin_def case_prod_beta lru_get_value)
  show "fst (Mongo_get gid r ?s3) = Inr (JRef (length (heap mg)))"
    by (simp add: Mongo_get_hit [OF p3])
next
  assume h: "\<not> stale_write (heap fb) (fst (lru_get (cache fb) gid)) state \<and> connected fb
      \<and> stateID_at (heap fb) state = JNum n \<and> 0 \<le> n"
  let ?s2 = "cold (snd (Firebase_set gid state IoOk fb))"
  let ?s3 = "snd (Firebase_get gid IoOk ?s2)"
  have g: "Firebase_get gid IoOk ?s2 =
      (Inr (JRef (length (heap fb))),
       ?s2\<lparr>heap := heap ?s2 @ [without_id (props_of (heap fb) state)],
            cache := lru_set (cache ?s2) gid (JRef (length (heap fb)))\<rparr>)"
    using h Firebase_round_trip [of fb gid state n] by simp
  have len: "length (heap ?s2) = length (heap fb)"
    using h by (simp add: cold_def Firebase_set_fresh length_delete_id)
  have p3: "lru_peek (cache ?s3) gid = Some (JRef (length (heap fb)))"
    by (simp add: g lru_set_peek_same)
  show "fst (Firebase_get gid IoOk ?s2) = Inr (JRef (length (heap fb)))"
    by (simp add: g)
  show "props_of (heap ?s3) (length (heap fb)) = without_id (props_of (heap fb) state)"
    by (simp add: g props_of_append_new [OF len])
  show "fst (Firebase_get_begin gid ?s3) = Inr (Some (JRef (length (heap fb))))"
    using p3 by (simp add: Firebase_get_begin_def case_prod_beta lru_get_value)
  show "fst (Firebase_get gid r ?s3) = Inr (JRef (length (heap fb)))"
    by (simp add: Firebase_get_hit [OF p3])
qed

theorem cold_get_round_trip_witness:
  "\<not> stale_write (heap Mongo_fetched) (fst (lru_get (cache Mongo_fetched) ''gameID'')) 0
   \<and> connected Mongo_fetched \<and> stateID_at (heap Mongo_fetched) 0 = JNum 3 \<and> (0::int) \<le> 3
   \<and> \<not> stale_write (heap Firebase_fetched) (fst (lru_get (cache Firebase_fetched) ''gameID'')) 0
   \<and> connected Firebase_fetched \<and> stateID_at (heap Firebase_fetched) 0 = JNum 3
   \<and> fst (Mongo_get ''gameID'' IoOk (cold (snd (Mongo_set ''gameID'' 0 IoOk Mongo_fetched)))) = Inr (JRef 1)
   \<and> props_of (heap (snd (Mongo_get ''gameID'' IoOk (cold (snd (Mongo_set ''gameID'' 0 IoOk Mongo_fetched)))))) 1
       = [(''_id'', JNum 0), (''_stateID'', JNum 3)]
   \<and> fst (Mongo_get ''gameID'' IoFail
        (snd (Mongo_get ''gameID'' IoOk (cold (snd (Mongo_set ''gameID'' 0 IoOk Mongo_fetched))))))
       = Inr (JRef 1)
   \<and> fst (Firebase_get ''gameID'' IoOk (cold (snd (Firebase_set ''gameID'' 0 IoOk Firebase_fetched))))
       = Inr (JRef 1)
   \<and> fst (Firebase_get ''gameID'' IoFail
        (snd (Firebase_get ''gameID'' IoOk (cold (snd (Firebase_set ''gameID'' 0 IoOk Firebase_fetched))))))
       = Inr (JRef 1)"
proof -
  have fetched:
    "heap Mongo_fetched = fetched_heap" "cache Mongo_fetched = LRU_new 1000" "connected Mongo_fetched"
    "next_oid (store Mongo_fetched) = 0"
    "heap Firebase_fetched = fetched_heap" "cache Firebase_fetched = LRU_new 1000"
    "connected Firebase_fetched"
    by (simp_all add: Mongo_fetched_def Firebase_fetched_def Mongo_new_def mongo_empty_def
        Mongo_connect_def Firebase_new_def Firebase_connect_def)
  have hyps: "\<not> stale_write fetched_heap (fst (lru_get (LRU_new 1000) ''gameID'')) 0"
    "stateID_at fetched_heap 0 = JNum 3" "length fetched_heap = 1"
    "without_id (props_of fetched_heap 0) = [(''_stateID'', JNum 3)]"
    by (simp_all add: fetched_heap_def js_defs lru_defs)
  show ?thesis
    using cold_get_round_trip [where mg = Mongo_fetched and fb = Firebase_fetched
        and gid = "''gameID''" and state = 0 and n = 3 and r = IoFail] hyps
    by (simp add: fetched)
qed

text \<open>
  The SQL connector is not part of the amended statement. Its \<open>get\<close> on an emptied
  cache throws at the call of \<open>this.db.findOne\<close> and leaves the cache empty. And the
  rest of the function, resumed with a row, reads \<open>_stateID\<close> from the row, which
  has the columns \<open>id\<close> and \<open>ctx\<close> only: the comparison is with
  \<open>undefined\<close>, and the row is not put into the cache.
\<close>

lemma SQL_cold_get_throws:
  "fst (SQL_get ''gameID'' IoOk (cold SQL_example)) = Inl TypeError
   \<and> map_of (rows (store (cold SQL_example))) ''gameID'' = Some [(''_stateID'', JNum 1)]
   \<and> lru_peek (cache (snd (SQL_get ''gameID'' IoOk (cold SQL_example)))) ''gameID'' = None"
  by (simp add: cold_def SQL_example_eval lru_defs SQL_get_def SQL_get_begin_def)

lemma SQL_get_resume_never_caches_a_row:
  "cache (snd (SQL_get_resume gid (JRow i ctx) s)) = snd (lru_get (cache s) gid)"
  by (simp add: SQL_get_resume_def case_prod_beta Let_def js_ge_def split: sum.splits)

section \<open>The re-check of \<open>get\<close>\<close>

lemma lru_get_entry:
  "lru_peek c gid = map_option JRef entry \<Longrightarrow>
   fst (lru_get c gid) = (case entry of None \<Rightarrow> JUndefined | Some a \<Rightarrow> JRef a)"
  by (cases entry) (simp_all add: lru_get_value)

lemma Mongo_get_resume_spec:
  assumes "lru_peek (cache s) gid = map_option JRef entry"
  shows "Mongo_get_resume gid (found_docs found) s =
           (Inr (array_first (found_docs found)),
            s\<lparr>cache := (if spec_get_writes (heap s) entry found
                         then lru_set (snd (lru_get (cache s) gid)) gid (array_first (found_docs found))
                         else snd (lru_get (cache s) gid))\<rparr>)"
  using lru_get_entry [OF assms]
  by (cases entry; cases found)
    (simp_all add: Mongo_get_resume_def case_prod_beta found_docs_def array_first_def
      spec_get_writes_def spec_oldStateID_def spec_newStateID_def stateID_at_def)

lemma Firebase_get_resume_spec:
  assumes "lru_peek (cache s) gid = map_option JRef entry" and "\<not> truthy absent"
  shows "Firebase_get_resume gid (found_doc absent found) s =
           (Inr (found_doc absent found),
            s\<lparr>cache := (if spec_get_writes (heap s) entry found
                         then lru_set (snd (lru_get (cache s) gid)) gid (found_doc absent found)
                         else snd (lru_get (cache s) gid))\<rparr>)"
  using lru_get_entry [OF assms(1)] assms(2)
  by (cases entry; cases found)
    (simp_all add: Firebase_get_resume_def case_prod_beta found_doc_def
      spec_get_writes_def spec_oldStateID_def spec_newStateID_def stateID_at_def)

lemma SQL_get_resume_missing:
  assumes "lru_peek (cache s) gid = map_option JRef entry"
  shows "snd (SQL_get_resume gid JNull s) =
            s\<lparr>cache := (if spec_get_writes (heap s) entry None
                         then lru_set (snd (lru_get (cache s) gid)) gid JNull
                         else snd (lru_get (cache s) gid))\<rparr>"
  using lru_get_entry [OF assms]
  by (cases entry)
    (simp_all add: SQL_get_resume_def case_prod_beta
      spec_get_writes_def spec_oldStateID_def spec_newStateID_def stateID_at_def)

lemma missing_does_not_write:
  "stateID_at h a = JNum k \<Longrightarrow> 0 \<le> k \<Longrightarrow> \<not> spec_get_writes h (Some a) None"
  by (simp add: spec_get_writes_def spec_oldStateID_def spec_newStateID_def js_ge_def)

text \<open>
  C3, as claimed, fails in its last part. A \<open>get\<close> of the MongoDB connector misses
  the cache and its query finds no document; before it resumes, a \<open>set\<close> puts a
  state with \<open>_stateID\<close> \<open>-1\<close> into the cache; the re-check then compares
  \<open>-1 >= -1\<close> and overwrites that entry with \<open>undefined\<close>.
\<close>

theorem missing_document_overwrites_counterexample:
  "fst (Mongo_get_begin ''gameID'' Mongo_odd) = Inr None
   \<and> fst (Mongo_find_latest ''gameID'' (snd (Mongo_get_begin ''gameID'' Mongo_odd))) = []
   \<and> lru_peek (cache (snd (Mongo_set_begin ''gameID'' 1
        (snd (Mongo_find_latest ''gameID'' (snd (Mongo_get_begin ''gameID'' Mongo_odd))))))) ''gameID''
       = Some (JRef 1)
   \<and> lru_peek (cache (snd (Mongo_get_resume ''gameID'' []
        (snd (Mongo_set_begin ''gameID'' 1
          (snd (Mongo_find_latest ''gameID'' (snd (Mongo_get_begin ''gameID'' Mongo_odd))))))))) ''gameID''
       = Some JUndefined"
  by (simp add: Mongo_odd_def odd_heap_def js_defs lru_defs mongo_defs)

text \<open>
  C3, amended. When a \<open>get(id)\<close> of the MongoDB or the Firebase connector resumes
  after its store read, with the cache then holding for \<open>id\<close> a game state or
  nothing and the store having delivered a game state or nothing, it returns the store's
  result, and it writes that result into the cache if and only if
  \<open>newStateID >= oldStateID\<close>, where \<open>oldStateID\<close> is the state id of the cache's
  current entry if one is present and 0 otherwise, and \<open>newStateID\<close> is the state id
  of the store's document if one was found and \<open>-1\<close> otherwise; when it does not
  write, the cache keeps its content. In particular, in these two connectors and in the
  SQL connector, a missing store document never overwrites a cache entry whose state id
  is a non-negative integer.
\<close>

theorem get_recheck_formula:
  "(lru_peek (cache mg) gid = map_option JRef entry \<longrightarrow>
      fst (Mongo_get_resume gid (found_docs found) mg) = Inr (array_first (found_docs found))
      \<and> cache (snd (Mongo_get_resume gid (found_docs found) mg))
          = (if spec_get_writes (heap mg) entry found
             then lru_set (snd (lru_get (cache mg) gid)) gid (array_first (found_docs found))
             else snd (lru_get (cache mg) gid))
      \<and> lru_peek (snd (lru_get (cache mg) gid)) = lru_peek (cache mg))
   \<and> (lru_peek (cache fb) gid = map_option JRef entry \<and> \<not> truthy absent \<longrightarrow>
      fst (Firebase_get_resume gid (found_doc absent found) fb) = Inr (found_doc absent found)
      \<and> cache (snd (Firebase_get_resume gid (found_doc absent found) fb))
          = (if spec_get_writes (heap fb) entry found
             then lru_set (snd (lru_get (cache fb) gid)) gid (found_doc absent found)
             else snd (lru_get (cache fb) gid))
      \<and> lru_peek (snd (lru_get (cache fb) gid)) = lru_peek (cache fb))
   \<and> (lru_peek (cache mg) gid = Some (JRef a) \<and> stateID_at (heap mg) a = JNum k \<and> 0 \<le> k \<longrightarrow>
      lru_peek (cache (snd (Mongo_get_resume gid [] mg))) = lru_peek (cache mg))
   \<and> (lru_peek (cache fb) gid = Some (JRef a) \<and> stateID_at (heap fb) a = JNum k \<and> 0 \<le> k
        \<and> \<not> truthy absent \<longrightarrow>
      lru_peek (cache (snd (Firebase_get_resume gid absent fb))) = lru_peek (cache fb))
   \<and> (lru_peek (cache sq) gid = Some (JRef a) \<and> stateID_at (heap sq) a = JNum k \<and> 0 \<le> k \<longrightarrow>
      lru_peek (cache (snd (SQL_get_resume gid JNull sq))) = lru_peek (cache sq))"
proof (intro conjI impI)
  assume e: "lru_peek (cache mg) gid = map_option JRef entry"
  show "fst (Mongo_get_resume gid (found_docs found) mg) = Inr (array_first (found_docs found))"
    by (simp add: Mongo_get_resume_spec [OF e])
  show "cache (snd (Mongo_get_resume gid (found_docs found) mg))
          = (if spec_get_writes (heap mg) entry found
             then lru_set (snd (lru_get (cache mg) gid)) gid (array_first (found_docs found))
             else snd (lru_get (cache mg) gid))"
    by (simp add: Mongo_get_resume_spec [OF e])
  show "lru_peek (snd (lru_get (cache mg) gid)) = lru_peek (cache mg)"
    by (rule lru_get_peek)
next
  assume h: "lru_peek (cache fb) gid = map_option JRef entry \<and> \<not> truthy absent"
  then have e: "lru_peek (cache fb) gid = map_option JRef entry" and ab: "\<not> truthy absent"
    by simp_all
  show "fst (Firebase_get_resume gid (found_doc absent found) fb) = Inr (found_doc absent found)"
    by (simp add: Firebase_get_resume_spec [OF e ab])
  show "cache (snd (Firebase_get_resume gid (found_doc absent found) fb))
          = (if spec_get_writes (heap fb) entry found
             then lru_set (snd (lru_get (cache fb) gid)) gid (found_doc absent found)
             else snd (lru_get (cache fb) gid))"
    by (simp add: Firebase_get_resume_spec [OF e ab])
  show "lru_peek (snd (lru_get (cache fb) gid)) = lru_peek (cache fb)"
    by (rule lru_get_peek)
next
  assume h: "lru_peek (cache mg) gid = Some (JRef a) \<and> stateID_at (heap mg) a = JNum k \<and> 0 \<le> k"
  then have e: "lru_peek (cache mg) gid = map_option JRef (Some a)"
    and w: "\<not> spec_get_writes (heap mg) (Some a) None"
    by (simp_all add: missing_does_not_write)
  show "lru_peek (cache (snd (Mongo_get_resume gid [] mg))) = lru_peek (cache mg)"
    using Mongo_get_resume_spec [OF e, of None] w by (simp add: found_docs_def lru_get_peek)
next
  assume h: "lru_peek (cache fb) gid = Some (JRef a) \<and> stateID_at (heap fb) a = JNum k \<and> 0 \<le> k
        \<and> \<not> truthy absent"
  then have e: "lru_peek (cache fb) gid = map_option JRef (Some a)"
    and w: "\<not> spec_get_writes (heap fb) (Some a) None" and ab: "\<not> truthy absent"
    by (simp_all add: missing_does_not_write)
  show "lru_peek (cache (snd (Firebase_get_resume gid absent fb))) = lru_peek (cache fb)"
    using Firebase_get_resume_spec [OF e ab, of None] w by (simp add: found_doc_def lru_get_peek)
next
  assume h: "lru_peek (cache sq) gid = Some (JRef a) \<and> stateID_at (heap sq) a = JNum k \<and> 0 \<le> k"
  then have e: "lru_peek (cache sq) gid = map_option JRef (Some a)"
    and w: "\<not> spec_get_writes (heap sq) (Some a) None"
    by (simp_all add: missing_does_not_write)
  show "lru_peek (cache (snd (SQL_get_resume gid JNull sq))) = lru_peek (cache sq)"
    using SQL_get_resume_missing [OF e] w by (simp add: lru_get_peek)
qed

theorem get_recheck_formula_witness:
  "lru_peek (cache Mongo_example) ''gameID'' = map_option JRef (Some 0)
   \<and> lru_peek (cache Firebase_example) ''gameID'' = map_option JRef (Some 0) \<and> \<not> truthy JNull
   \<and> lru_peek (cache SQL_example) ''gameID'' = Some (JRef 0)
   \<and> stateID_at example_heap 0 = JNum 1 \<and> stateID_at (heap Mongo_example) 0 = JNum 1
   \<and> (0::int) \<le> 1
   \<and> spec_get_writes example_heap (Some 0) (Some 2)
   \<and> \<not> spec_get_writes example_heap (Some 0) (Some 1)
   \<and> spec_get_writes (heap Mongo_example) (Some 0) (Some 2)
   \<and> \<not> spec_get_writes (heap Mongo_example) (Some 0) (Some 1)
   \<and> lru_peek (cache (snd (Mongo_get_resume ''gameID'' [JRef 2] Mongo_example))) ''gameID'' = Some (JRef 2)
   \<and> lru_peek (cache (snd (Mongo_get_resume ''gameID'' [JRef 1] Mongo_example))) ''gameID'' = Some (JRef 0)
   \<and> lru_peek (cache (snd (Firebase_get_resume ''gameID'' (JRef 2) Firebase_example))) ''gameID''
       = Some (JRef 2)
   \<and> lru_peek (cache (snd (Mongo_get_resume ''gameID'' [] Mongo_example))) ''gameID'' = Some (JRef 0)
   \<and> lru_peek (cache (snd (Firebase_get_resume ''gameID'' JNull Firebase_example))) ''gameID''
       = Some (JRef 0)
   \<and> lru_peek (cache (snd (SQL_get_resume ''gameID'' JNull SQL_example))) ''gameID'' = Some (JRef 0)"
proof -
  have peeks: "lru_peek (cache Mongo_example) ''gameID'' = Some (JRef 0)"
    "lru_peek (cache Firebase_example) ''gameID'' = Some (JRef 0)"
    "lru_peek (cache SQL_example) ''gameID'' = Some (JRef 0)"
    by (simp_all add: lru_peek_def SQL_example_eval Mongo_example_eval Firebase_example_eval)
  have ids: "stateID_at example_heap 0 = JNum 1" "spec_get_writes example_heap (Some 0) (Some 2)"
    "\<not> spec_get_writes example_heap (Some 0) (Some 1)"
    "stateID_at (heap Mongo_example) 0 = JNum 1"
    "spec_get_writes (heap Mongo_example) (Some 0) (Some 2)"
    "\<not> spec_get_writes (heap Mongo_example) (Some 0) (Some 1)"
    by (simp_all add: example_heap_def Mongo_example_eval spec_get_writes_def spec_oldStateID_def
        spec_newStateID_def js_defs)
  have sets: "lru_peek (lru_set (snd (lru_get (cache Mongo_example) ''gameID'')) ''gameID'' (JRef 2)) ''gameID''
       = Some (JRef 2)"
    "lru_peek (lru_set (snd (lru_get (cache Firebase_example) ''gameID'')) ''gameID'' (JRef 2)) ''gameID''
       = Some (JRef 2)"
    by (simp_all add: lru_set_peek_same)
  show ?thesis
    using get_recheck_formula [where mg = Mongo_example and fb = Firebase_example and sq = SQL_example
        and gid = "''gameID''" and entry = "Some 0" and found = "Some 2" and absent = JNull
        and a = 0 and k = 1]
      get_recheck_formula [where mg = Mongo_example and fb = Firebase_example and sq = SQL_example
        and gid = "''gameID''" and entry = "Some 0" and found = "Some 1" and absent = JNull
        and a = 0 and k = 1]
      peeks ids sets
    by (simp add: SQL_example_eval Mongo_example_eval(2-) Firebase_example_eval found_docs_def
        found_doc_def array_first_def lru_get_peek)
qed

section \<open>Monotonicity of the cache\<close>

lemma stateID_at_alloc:
  "stateID_at h c = JNum k \<Longrightarrow> stateID_at (snd (alloc h ps)) c = JNum k"
  by (cases "c < length h") (auto simp: stateID_at_def props_of_def alloc_def nth_append lookup_prop_def)

lemma no_downgrade_unchanged:
  assumes "lru_peek (cache s') gid = lru_peek (cache s) gid"
    and "\<And>c k. stateID_at (heap s) c = JNum k \<Longrightarrow> stateID_at (heap s') c = JNum k"
  shows "no_downgrade gid s s'"
  using assms
  by (auto simp: no_downgrade_def cache_stateID_def split: option.splits jsval.splits)

lemma no_downgrade_write:
  assumes cache': "cache s' = lru_set c1 g w" and c1: "lru_peek c1 = lru_peek (cache s)"
    and keep: "\<And>c k. stateID_at (heap s) c = JNum k \<Longrightarrow> stateID_at (heap s') c = JNum k"
    and ok: "\<And>c k v k'. g = gid \<Longrightarrow> lru_peek (cache s) gid = Some (JRef c) \<Longrightarrow>
               stateID_at (heap s) c = JNum k \<Longrightarrow> w = JRef v \<Longrightarrow>
               stateID_at (heap s') v = JNum k' \<Longrightarrow> k \<le> k'"
  shows "no_downgrade gid s s'"
proof (cases "g = gid")
  case True
  have "lru_peek (cache s') gid = Some w"
    by (simp add: cache' True [symmetric] lru_set_peek_same)
  then show ?thesis
    using ok [OF True]
    by (auto simp: no_downgrade_def cache_stateID_def split: option.splits jsval.splits)
next
  case False
  have same: "lru_peek (cache s) gid = Some x" if "lru_peek (cache s') gid = Some x" for x
    using that False lru_set_peek_other [of c1 g w gid x] by (simp add: cache' c1)
  show ?thesis
    unfolding no_downgrade_def cache_stateID_def
    using same keep
    by (auto split: option.splits jsval.splits)
qed

lemma not_stale_newer:
  assumes "\<not> stale_write h (fst (lru_get c gid)) state" and "lru_peek c gid = Some (JRef a)"
    and "stateID_at h a = JNum k" and "stateID_at h state = JNum k'"
  shows "k < k'"
  using assms by (simp add: stale_write_def lru_get_value js_ge_def stateID_at_def)

lemma recheck_passes_newer:
  assumes "recheck_passes h (fst (lru_get c gid)) present (JRef v)"
    and "lru_peek c gid = Some (JRef a)" and "stateID_at h a = JNum k"
    and "stateID_at h v = JNum k'" and "present"
  shows "k \<le> k'"
  using assms by (simp add: recheck_passes_def lru_get_value stateID_at_def js_ge_def)

lemma SQL_get_resume_effect:
  "heap (snd (SQL_get_resume g doc s)) = heap s
   \<and> (cache (snd (SQL_get_resume g doc s)) = snd (lru_get (cache s) g)
      \<or> cache (snd (SQL_get_resume g doc s)) = lru_set (snd (lru_get (cache s) g)) g doc
        \<and> recheck_passes (heap s) (fst (lru_get (cache s) g)) (truthy doc) doc)"
  by (simp add: SQL_get_resume_def recheck_passes_def case_prod_beta Let_def split: sum.splits)

lemma Mongo_get_resume_effect:
  "heap (snd (Mongo_get_resume g docs s)) = heap s
   \<and> (cache (snd (Mongo_get_resume g docs s)) = snd (lru_get (cache s) g)
      \<or> cache (snd (Mongo_get_resume g docs s)) = lru_set (snd (lru_get (cache s) g)) g (array_first docs)
        \<and> recheck_passes (heap s) (fst (lru_get (cache s) g)) (length docs > 0) (array_first docs))"
  by (simp add: Mongo_get_resume_def recheck_passes_def case_prod_beta Let_def split: sum.splits)

lemma Firebase_get_resume_effect:
  "heap (snd (Firebase_get_resume g doc s)) = heap s
   \<and> (cache (snd (Firebase_get_resume g doc s)) = snd (lru_get (cache s) g)
      \<or> cache (snd (Firebase_get_resume g doc s)) = lru_set (snd (lru_get (cache s) g)) g doc
        \<and> recheck_passes (heap s) (fst (lru_get (cache s) g)) (truthy doc) doc)"
  by (simp add: Firebase_get_resume_def recheck_passes_def case_prod_beta Let_def split: sum.splits)

lemma resume_no_downgrade:
  assumes heap: "heap s' = heap s"
    and cache': "cache s' = snd (lru_get (cache s) g)
      \<or> cache s' = lru_set (snd (lru_get (cache s) g)) g doc
        \<and> recheck_passes (heap s) (fst (lru_get (cache s) g)) present doc"
    and present: "\<And>v. doc = JRef v \<Longrightarrow> present"
  shows "no_downgrade gid s s'"
  using cache'
proof
  assume "cache s' = snd (lru_get (cache s) g)"
  then show ?thesis
    by (intro no_downgrade_unchanged) (simp_all add: heap lru_get_peek)
next
  assume w: "cache s' = lru_set (snd (lru_get (cache s) g)) g doc
        \<and> recheck_passes (heap s) (fst (lru_get (cache s) g)) present doc"
  show ?thesis
  proof (rule no_downgrade_write [where g = g and w = doc and ?c1.0 = "snd (lru_get (cache s) g)"])
    show "cache s' = lru_set (snd (lru_get (cache s) g)) g doc"
      using w by simp
    show "lru_peek (snd (lru_get (cache s) g)) = lru_peek (cache s)"
      by (rule lru_get_peek)
    show "stateID_at (heap s') c = JNum k" if "stateID_at (heap s) c = JNum k" for c k
      using that by (simp add: heap)
    show "k \<le> k'" if "g = gid" "lru_peek (cache s) gid = Some (JRef c)"
      "stateID_at (heap s) c = JNum k" "doc = JRef v" "stateID_at (heap s') v = JNum k'" for c k v k'
    proof (rule recheck_passes_newer [where h = "heap s" and c = "cache s" and gid = g
          and present = present and v = v and a = c])
      show "recheck_passes (heap s) (fst (lru_get (cache s) g)) present (JRef v)"
        using w that(4) by simp
      show "lru_peek (cache s) g = Some (JRef c)" using that(1,2) by simp
      show "stateID_at (heap s) c = JNum k" by (rule that(3))
      show "stateID_at (heap s) v = JNum k'" using that(5) by (simp add: heap)
      show present using that(4) by (rule present)
    qed
  qed
qed

lemma set_begin_no_downgrade:
  assumes stale: "stale_write (heap s) (fst (lru_get (cache s) g)) state \<Longrightarrow>
            heap s' = heap s \<and> cache s' = snd (lru_get (cache s) g)"
    and fresh: "\<not> stale_write (heap s) (fst (lru_get (cache s) g)) state \<Longrightarrow>
            (heap s' = heap s \<or> heap s' = delete_id (heap s) state
             \<or> heap s' = write_id (delete_id (heap s) state) state v)
            \<and> cache s' = lru_set (snd (lru_get (cache s) g)) g (JRef state)"
  shows "no_downgrade gid s s'"
proof (cases "stale_write (heap s) (fst (lru_get (cache s) g)) state")
  case True
  with stale show ?thesis
    by (intro no_downgrade_unchanged) (simp_all add: lru_get_peek)
next
  case False
  note f = fresh [OF False]
  have keep: "stateID_at (heap s') c = stateID_at (heap s) c" for c
    using f by (auto simp: stateID_at_delete_id stateID_at_write_id)
  show ?thesis
  proof (rule no_downgrade_write [where g = g and w = "JRef state" and ?c1.0 = "snd (lru_get (cache s) g)"])
    show "cache s' = lru_set (snd (lru_get (cache s) g)) g (JRef state)"
      using f by simp
    show "lru_peek (snd (lru_get (cache s) g)) = lru_peek (cache s)"
      by (rule lru_get_peek)
    show "stateID_at (heap s') c = JNum k" if "stateID_at (heap s) c = JNum k" for c k
      using that by (simp add: keep)
    show "k \<le> k'" if "g = gid" "lru_peek (cache s) gid = Some (JRef c)"
      "stateID_at (heap s) c = JNum k" "JRef state = JRef v" "stateID_at (heap s') v = JNum k'"
    for c k v k'
    proof -
      have "stateID_at (heap s) state = JNum k'"
        using that(4,5) by (simp add: keep)
      with False that(1,2,3) have "k < k'"
        by (intro not_stale_newer [where c = "cache s" and gid = g and a = c and h = "heap s"
              and state = state]) simp_all
      then show ?thesis by simp
    qed
  qed
qed

lemma SQL_step_no_downgrade: "no_downgrade gid s (SQL_step e s)"
proof (cases e)
  case (Set_begins g state)
  show ?thesis
    by (rule set_begin_no_downgrade [where g = g and state = state])
      (simp_all add: Set_begins SQL_set_begin_def case_prod_beta Let_def)
next
  case (Driver_writes g ctx)
  then show ?thesis by (intro no_downgrade_unchanged) simp_all
next
  case (Get_begins g)
  then show ?thesis
    by (intro no_downgrade_unchanged) (simp_all add: SQL_get_begin_def case_prod_beta lru_get_peek)
next
  case (Driver_reads g)
  then show ?thesis by (intro no_downgrade_unchanged) simp_all
next
  case (Get_resumes g doc)
  show ?thesis
    using SQL_get_resume_effect [of g doc s]
    by (intro resume_no_downgrade [where g = g and doc = doc and present = "truthy doc"])
      (auto simp: Get_resumes)
next
  case (Has_runs g r)
  then show ?thesis
    by (intro no_downgrade_unchanged) (simp_all add: SQL_has_def case_prod_beta lru_get_peek)
qed

lemma Mongo_step_no_downgrade: "no_downgrade gid s (Mongo_step e s)"
proof (cases e)
  case (Set_begins g state)
  show ?thesis
    by (rule set_begin_no_downgrade [where g = g and state = state
          and v = "JNum (next_oid (store s))"])
      (simp_all add: Set_begins Mongo_set_begin_def case_prod_beta Let_def)
next
  case (Driver_writes g ctx)
  then show ?thesis by (intro no_downgrade_unchanged) simp_all
next
  case (Get_begins g)
  then show ?thesis
    by (intro no_downgrade_unchanged) (simp_all add: Mongo_get_begin_def case_prod_beta lru_get_peek)
next
  case (Driver_reads g)
  then show ?thesis
    by (intro no_downgrade_unchanged)
      (auto simp: Mongo_find_latest_def case_prod_beta stateID_at_alloc split: list.splits)
next
  case (Get_resumes g docs)
  show ?thesis
    using Mongo_get_resume_effect [of g docs s]
    by (intro resume_no_downgrade [where g = g and doc = "array_first docs"
          and present = "length docs > 0"])
      (auto simp: Get_resumes array_first_def split: list.splits)
next
  case (Has_runs g r)
  then show ?thesis
    by (intro no_downgrade_unchanged)
      (auto simp: Mongo_has_def Mongo_find_first_def case_prod_beta lru_get_peek stateID_at_alloc
        split: io.splits list.splits)
qed

lemma Firebase_step_no_downgrade: "no_downgrade gid s (Firebase_step e s)"
proof (cases e)
  case (Set_begins g state)
  show ?thesis
    by (rule set_begin_no_downgrade [where g = g and state = state])
      (simp_all add: Set_begins Firebase_set_begin_def case_prod_beta Let_def)
next
  case (Driver_writes g ctx)
  then show ?thesis by (intro no_downgrade_unchanged) simp_all
next
  case (Get_begins g)
  then show ?thesis
    by (intro no_downgrade_unchanged) (simp_all add: Firebase_get_begin_def case_prod_beta lru_get_peek)
next
  case (Driver_reads g)
  then show ?thesis
    by (intro no_downgrade_unchanged)
      (auto simp: Firebase_read_def case_prod_beta stateID_at_alloc split: option.splits)
next
  case (Get_resumes g doc)
  show ?thesis
    using Firebase_get_resume_effect [of g doc s]
    by (intro resume_no_downgrade [where g = g and doc = doc and present = "truthy doc"])
      (auto simp: Get_resumes)
next
  case (Has_runs g r)
  then show ?thesis
    by (intro no_downgrade_unchanged)
      (auto simp: Firebase_has_def case_prod_beta lru_get_peek split: io.splits)
qed

lemma trace_successively:
  assumes "\<And>e s. P s (step e s)"
  shows "successively P (trace step es s)"
proof (induction es arbitrary: s)
  case Nil
  then show ?case by simp
next
  case (Cons e es)
  have "trace step es (step e s) = step e s # tl (trace step es (step e s))"
    by (cases es) simp_all
  with Cons [of "step e s"] assms [of s e] show ?case
    by (metis successively.simps(3) trace.simps(2))
qed

text \<open>
  C1. In every run of a cache-backed connector (SQL, MongoDB, Firebase), from any state
  and through any interleaving of the steps of \<open>get\<close>, \<open>set\<close> and \<open>has\<close>
  calls with each other and with the driver, and whatever results the driver delivers:
  whenever the cache entry of a game refers to a state with an integer state id before a
  step and to a state with an integer state id after it, the id after the step is not
  less than the id before. No step replaces a cached state by a state with a smaller
  state id.
\<close>

theorem cache_never_downgraded:
  "successively (no_downgrade gid) (trace SQL_step es sq)
   \<and> successively (no_downgrade gid) (trace Mongo_step es' mg)
   \<and> successively (no_downgrade gid) (trace Firebase_step es fb)"
  by (intro conjI trace_successively SQL_step_no_downgrade Mongo_step_no_downgrade
      Firebase_step_no_downgrade)

theorem cache_never_downgraded_witness:
  "map (\<lambda>s. cache_stateID s ''gameID'')
      (trace SQL_step [Set_begins ''gameID'' 2, Get_resumes ''gameID'' (JRef 1), Set_begins ''gameID'' 1]
         SQL_example)
     = [Some 1, Some 2, Some 2, Some 2]
   \<and> map (\<lambda>s. cache_stateID s ''gameID'')
      (trace Mongo_step [Set_begins ''gameID'' 2, Get_resumes ''gameID'' [JRef 1], Set_begins ''gameID'' 1]
         Mongo_example)
     = [Some 1, Some 2, Some 2, Some 2]
   \<and> map (\<lambda>s. cache_stateID s ''gameID'')
      (trace Firebase_step [Set_begins ''gameID'' 2, Get_resumes ''gameID'' (JRef 1), Set_begins ''gameID'' 1]
         Firebase_example)
     = [Some 1, Some 2, Some 2, Some 2]
   \<and> successively (no_downgrade ''gameID'')
      (trace SQL_step [Set_begins ''gameID'' 2, Get_resumes ''gameID'' (JRef 1), Set_begins ''gameID'' 1]
         SQL_example)
   \<and> successively (no_downgrade ''gameID'')
      (trace Mongo_step [Set_begins ''gameID'' 2, Get_resumes ''gameID'' [JRef 1], Set_begins ''gameID'' 1]
         Mongo_example)
   \<and> successively (no_downgrade ''gameID'')
      (trace Firebase_step [Set_begins ''gameID'' 2, Get_resumes ''gameID'' (JRef 1), Set_begins ''gameID'' 1]
         Firebase_example)"
proof -
  have ids: "map (\<lambda>s. cache_stateID s ''gameID'')
      (trace SQL_step [Set_begins ''gameID'' 2, Get_resumes ''gameID'' (JRef 1), Set_begins ''gameID'' 1]
         SQL_example)
     = [Some 1, Some 2, Some 2, Some 2]"
    "map (\<lambda>s. cache_stateID s ''gameID'')
      (trace Mongo_step [Set_begins ''gameID'' 2, Get_resumes ''gameID'' [JRef 1], Set_begins ''gameID'' 1]
         Mongo_example)
     = [Some 1, Some 2, Some 2, Some 2]"
    "map (\<lambda>s. cache_stateID s ''gameID'')
      (trace Firebase_step [Set_begins ''gameID'' 2, Get_resumes ''gameID'' (JRef 1), Set_begins ''gameID'' 1]
         Firebase_example)
     = [Some 1, Some 2, Some 2, Some 2]"
    by (simp_all add: cache_stateID_def SQL_example_eval Mongo_example_eval Firebase_example_eval
        example_heap_def js_defs lru_defs SQL_set_begin_def SQL_get_resume_def
        Mongo_set_begin_def Mongo_get_resume_def Firebase_set_begin_def Firebase_get_resume_def)
  show ?thesis
    using ids
      cache_never_downgraded [where gid = "''gameID''" and sq = SQL_example and mg = Mongo_example
        and fb = Firebase_example
        and es = "[Set_begins ''gameID'' 2, Get_resumes ''gameID'' (JRef 1), Set_begins ''gameID'' 1]"
        and es' = "[Set_begins ''gameID'' 2, Get_resumes ''gameID'' [JRef 1], Set_begins ''gameID'' 1]"]
    by simp
qed

section \<open>Properties of the in-memory connector\<close>

text \<open>
  C10. The in-memory connector has no guard on \<open>_stateID\<close>: \<open>set\<close> replaces the
  stored entry whatever the two states are, so after \<open>set(id, s1)\<close> and then
  \<open>set(id, s2)\<close> a \<open>get(id)\<close> returns \<open>s2\<close>, also when the state id of \<open>s2\<close>
  is the smaller one; the heap, where the state ids live, is not even consulted.
\<close>

theorem InMemory_set_overwrites:
  "InMemory_get gid (InMemory_set gid s2 (InMemory_set gid s1 m)) = s2
   \<and> games (InMemory_set gid s2 m) gid = Some s2"
  by (simp add: InMemory_get_def InMemory_set_def)

end
